theory Spec2Isabelle
  imports Complex_Main "HOL-Library.Log_Nat"
begin

section \<open>JavaScript values\<close>

text \<open>
  The API handler \<^verbatim>\<open>pages/api/[...slug].ts\<close> works on values typed \<^verbatim>\<open>any\<close>: whatever
  the analysis backend put into its JSON answer. They are modelled by the datatype below.
  \<open>JUndefined\<close> is the value of a missing property. A number is the rational value of
  a double; every division, multiplication and addition of the handler rounds its result as
  IEEE 754 does (\<open>to_double\<close> below). \<^verbatim>\<open>NaN\<close>, the infinities and the limits of the
  exponent are outside the model. Strings are \<open>char list\<close>s.
\<close>

datatype json =
    JUndefined
  | JNull
  | JBool bool
  | JNum rat
  | JStr string
  | JArr "json list"
  | JObj "(string \<times> json) list"

datatype error = TypeError | SyntaxError

text \<open>
  What the ECMAScript platform does and the repository does not define is a parameter of
  the model: \<^verbatim>\<open>JSON.parse\<close> (an \<open>Inl\<close> is the exception it throws), the coercion of a
  value that is not a number to a number (\<open>None\<close> is \<^verbatim>\<open>NaN\<close>), the operators \<^verbatim>\<open>+\<close>
  and \<^verbatim>\<open>/\<close> on operands that are not numbers, and the members a plain object inherits
  from \<^verbatim>\<open>Object.prototype\<close> (\<open>JUndefined\<close> for a name it does not define). Every
  theorem below holds for every such environment.
\<close>

record js_env =
  JSON_parse :: "string \<Rightarrow> error + json"
  to_number :: "json \<Rightarrow> rat option"
  plus_coerce :: "json \<Rightarrow> json \<Rightarrow> json"
  div_coerce :: "json \<Rightarrow> nat \<Rightarrow> json"
  proto_member :: "string \<Rightarrow> json"

subsection \<open>Double-precision arithmetic\<close>

text \<open>
  JavaScript computes with IEEE 754 doubles: the exact result of an operation is rounded to
  the nearest number with a significand of 53 bits, a tie going to the even significand.
  \<open>binade x\<close> is the exponent \<open>e\<close> with \<open>2\<^sup>e \<le> x < 2\<^sup>e\<^sup>+\<^sup>1\<close> of a positive \<open>x\<close>;
  \<open>to_double\<close> rounds a rational; \<open>js_percent a b\<close> is the value of the source's
  \<^verbatim>\<open>(a / b) * 100\<close> for two array lengths.
\<close>

definition round_half_even :: "rat \<Rightarrow> int" where
  "round_half_even m =
     (let f = \<lfloor>m\<rfloor>; d = m - of_int f
      in if d < 1 / 2 then f else if 1 / 2 < d then f + 1 else if even f then f else f + 1)"

definition binade :: "rat \<Rightarrow> int" where
  "binade x =
     (let k = bitlen (fst (quotient_of x)) - bitlen (snd (quotient_of x))
      in if 2 powi k \<le> x then k else k - 1)"

definition to_double :: "rat \<Rightarrow> rat" where
  "to_double x =
     (if x = 0 then 0
      else let e = binade \<bar>x\<bar> - 52;
               r = of_int (round_half_even (\<bar>x\<bar> / 2 powi e)) * 2 powi e
           in if x < 0 then - r else r)"

definition js_percent :: "nat \<Rightarrow> nat \<Rightarrow> rat" where
  "js_percent a b = to_double (to_double (of_nat a / of_nat b) * 100)"

text \<open>Truthiness: what \<^verbatim>\<open>!x\<close>, \<^verbatim>\<open>x && y\<close> and \<^verbatim>\<open>x || y\<close> test.\<close>

fun truthy :: "json \<Rightarrow> bool" where
  "truthy JUndefined = False"
| "truthy JNull = False"
| "truthy (JBool b) = b"
| "truthy (JNum x) = (x \<noteq> 0)"
| "truthy (JStr s) = (s \<noteq> [])"
| "truthy (JArr xs) = True"
| "truthy (JObj kvs) = True"

text \<open>\<^verbatim>\<open>a || b\<close>\<close>

definition js_or :: "json \<Rightarrow> json \<Rightarrow> json" where
  "js_or a b = (if truthy a then a else b)"

text \<open>
  \<^verbatim>\<open>x.k\<close>: reading a property of \<^verbatim>\<open>null\<close> or \<^verbatim>\<open>undefined\<close> throws a TypeError; an
  object gives the property or \<^verbatim>\<open>undefined\<close>; the field names the handler reads are not
  defined on strings, numbers, booleans or arrays. \<^verbatim>\<open>x?.k\<close> gives \<^verbatim>\<open>undefined\<close>
  instead of throwing.
\<close>

fun get_prop :: "json \<Rightarrow> string \<Rightarrow> error + json" where
  "get_prop JUndefined k = Inl TypeError"
| "get_prop JNull k = Inl TypeError"
| "get_prop (JObj kvs) k = Inr (case map_of kvs k of Some v \<Rightarrow> v | None \<Rightarrow> JUndefined)"
| "get_prop (JBool b) k = Inr JUndefined"
| "get_prop (JNum x) k = Inr JUndefined"
| "get_prop (JStr s) k = Inr JUndefined"
| "get_prop (JArr xs) k = Inr JUndefined"

definition opt_prop :: "json \<Rightarrow> string \<Rightarrow> json" where
  "opt_prop x k = (case get_prop x k of Inl e \<Rightarrow> JUndefined | Inr v \<Rightarrow> v)"

text \<open>Sequencing of statements that may throw, and \<^verbatim>\<open>try { ... } catch (e) { ... }\<close>.\<close>

definition bindE :: "error + 'a \<Rightarrow> ('a \<Rightarrow> error + 'b) \<Rightarrow> error + 'b" where
  "bindE m f = (case m of Inl e \<Rightarrow> Inl e | Inr v \<Rightarrow> f v)"

definition try_catch :: "error + 'a \<Rightarrow> (error \<Rightarrow> error + 'a) \<Rightarrow> error + 'a" where
  "try_catch body handler = (case body of Inl e \<Rightarrow> handler e | Inr v \<Rightarrow> Inr v)"

fun mapE :: "('a \<Rightarrow> error + 'b) \<Rightarrow> 'a list \<Rightarrow> error + 'b list" where
  "mapE f [] = Inr []"
| "mapE f (x # xs) = bindE (f x) (\<lambda>y. bindE (mapE f xs) (\<lambda>ys. Inr (y # ys)))"

fun forEachE :: "('a \<Rightarrow> 's \<Rightarrow> error + 's) \<Rightarrow> 'a list \<Rightarrow> 's \<Rightarrow> error + 's" where
  "forEachE f [] s = Inr s"
| "forEachE f (x # xs) s = bindE (f x s) (forEachE f xs)"

subsection \<open>Strings\<close>

text \<open>
  \<^verbatim>\<open>String.prototype.trim\<close> removes white space and line terminators at both ends;
  within one-byte characters these are tab, line feed, vertical tab, form feed, carriage
  return, space and the no-break space.
\<close>

definition js_space :: "char \<Rightarrow> bool" where
  "js_space c = (c \<in> set [CHR 0x09, CHR 0x0A, CHR 0x0B, CHR 0x0C, CHR 0x0D, CHR 0x20, CHR 0xA0])"

definition js_trim :: "string \<Rightarrow> string" where
  "js_trim s = rev (dropWhile js_space (rev (dropWhile js_space s)))"

text \<open>\<^verbatim>\<open>s.split(',')\<close>: the pieces between the separators; an empty string gives one empty piece.\<close>

fun split_on :: "char \<Rightarrow> string \<Rightarrow> string list" where
  "split_on c [] = [[]]"
| "split_on c (x # xs) =
     (if x = c then [] # split_on c xs
      else (case split_on c xs of [] \<Rightarrow> [[x]] | w # ws \<Rightarrow> (x # w) # ws))"

text \<open>\<^verbatim>\<open>s.replace(/["\[\]]/g, '')\<close>: every double quote and square bracket removed.\<close>

definition strip_brackets :: "string \<Rightarrow> string" where
  "strip_brackets s = filter (\<lambda>c. c \<notin> set [CHR 0x22, CHR 0x5B, CHR 0x5D]) s"

section \<open>Field normalization\<close>

text \<open>
  \<^verbatim>\<open>
  function safeParseJSONArray(jsonString: any, fallback: any[] = []): any[] {
    if (Array.isArray(jsonString)) { return jsonString; }
    if (typeof jsonString === 'string' && jsonString.trim()) {
      try {
        const parsed = JSON.parse(jsonString);
        return Array.isArray(parsed) ? parsed : [parsed];
      } catch (e) {
        if (jsonString.includes(',')) {
          return jsonString.split(',').map(s => s.trim().replace(/["\[\]]/g, '')).filter(s => s);
        }
        return [jsonString.replace(/["\[\]]/g, '')];
      }
    }
    return fallback;
  }
  \<close>
\<close>

definition safeParseJSONArray :: "js_env \<Rightarrow> json \<Rightarrow> json list \<Rightarrow> error + json list" where
  "safeParseJSONArray env jsonString fallback =
     (case jsonString of
        JArr xs \<Rightarrow> Inr xs
      | JStr s \<Rightarrow>
          if js_trim s \<noteq> [] then
            try_catch
              (bindE (JSON_parse env s)
                 (\<lambda>parsed. Inr (case parsed of JArr ys \<Rightarrow> ys | _ \<Rightarrow> [parsed])))
              (\<lambda>e. if CHR 0x2C \<in> set s
                    then Inr (map JStr (filter (\<lambda>t. t \<noteq> [])
                                (map (\<lambda>t. strip_brackets (js_trim t)) (split_on CHR 0x2C s))))
                    else Inr [JStr (strip_brackets s)])
          else Inr fallback
      | _ \<Rightarrow> Inr fallback)"

text \<open>
  The records of \<^verbatim>\<open>patient_summaries\<close> after the handler has normalized them: the object
  literal the \<^verbatim>\<open>map\<close> callback returns. The three list fields hold what
  \<open>safeParseJSONArray\<close> returned, an array in every case.
\<close>

record PatientSummary =
  patient_id :: json
  total_comorbidities :: json
  highest_confidence :: json
  comorbidity_summary :: json
  surgery_outcome :: json
  failure_causes :: "json list"
  primary_concerns :: "json list"
  comprehensive_summary :: json
  columns_analyzed :: json
  mortality_status :: json
  mortality_confidence :: json
  mortality_causes :: "json list"
  time_of_death :: json

text \<open>
  \<^verbatim>\<open>
  let surgeryOutcome = patient.surgery_outcome;
  if (!surgeryOutcome || surgeryOutcome === '') { surgeryOutcome = 'unknown'; }
  let mortalityStatus = patient.mortality_status;
  if (!mortalityStatus || mortalityStatus === '') { mortalityStatus = 'alive'; }
  \<close>
\<close>

definition surgeryOutcome :: "json \<Rightarrow> json" where
  "surgeryOutcome raw = (if \<not> truthy raw \<or> raw = JStr [] then JStr ''unknown'' else raw)"

definition mortalityStatus :: "json \<Rightarrow> json" where
  "mortalityStatus raw = (if \<not> truthy raw \<or> raw = JStr [] then JStr ''alive'' else raw)"

text \<open>
  The callback of \<^verbatim>\<open>backendData.patient_summaries.map\<close>. Its first property read throws
  when the array element is \<^verbatim>\<open>null\<close>; once a read has succeeded the reads of the object
  literal cannot throw.
\<close>

definition patient_callback :: "js_env \<Rightarrow> json \<Rightarrow> error + PatientSummary" where
  "patient_callback env patient =
     bindE (get_prop patient ''failure_causes'') (\<lambda>raw_fc.
     bindE (safeParseJSONArray env raw_fc []) (\<lambda>failureCauses.
     bindE (get_prop patient ''primary_concerns'') (\<lambda>raw_pc.
     bindE (safeParseJSONArray env raw_pc []) (\<lambda>primaryConcerns.
     bindE (get_prop patient ''mortality_causes'') (\<lambda>raw_mc.
     bindE (safeParseJSONArray env raw_mc []) (\<lambda>mortalityCauses.
     bindE (get_prop patient ''surgery_outcome'') (\<lambda>raw_so.
     bindE (get_prop patient ''mortality_status'') (\<lambda>raw_ms.
     Inr \<lparr> patient_id = opt_prop patient ''patient_id'',
           total_comorbidities = js_or (opt_prop patient ''total_comorbidities'') (JNum 0),
           highest_confidence = js_or (opt_prop patient ''highest_confidence'') (JNum 0),
           comorbidity_summary = js_or (opt_prop patient ''comorbidity_summary'') (JStr []),
           surgery_outcome = surgeryOutcome raw_so,
           failure_causes = failureCauses,
           primary_concerns = primaryConcerns,
           comprehensive_summary = js_or (opt_prop patient ''comprehensive_summary'') (JStr []),
           columns_analyzed = js_or (opt_prop patient ''columns_analyzed'') (JNum 0),
           mortality_status = mortalityStatus raw_ms,
           mortality_confidence = js_or (opt_prop patient ''mortality_confidence'') (JNum 0),
           mortality_causes = mortalityCauses,
           time_of_death = js_or (opt_prop patient ''time_of_death'') JNull \<rparr>))))))))"

section \<open>The analytics summary\<close>

text \<open>
  The objects the aggregator builds. A frequency map (\<^verbatim>\<open>Record<string, number>\<close>) is the
  list of its own properties. The fields \<open>mortality_cause_freq\<close> and
  \<open>failure_cause_freq\<close> are the source's \<^verbatim>\<open>mortality_analytics.mortality_causes\<close> and
  \<^verbatim>\<open>failure_causes\<close>, renamed because the patient record has fields of these names.
\<close>

type_synonym obj = "(string \<times> json) list"

record SurgeryAnalytics =
  successful :: nat
  failed :: nat
  unknown :: nat
  success_rate :: rat

record RiskDistribution =
  Critical :: nat
  High :: nat
  Medium :: nat
  Low :: nat

record MortalityAnalytics =
  deceased_patients :: nat
  alive_patients :: nat
  mortality_rate :: rat
  mortality_cause_freq :: obj
  failed_surgery_deaths :: nat
  success_surgery_deaths :: nat
  death_rate_in_failed :: rat
  death_rate_in_successful :: rat
  high_risk_comorbidities :: obj
  risk_distribution :: RiskDistribution

record PatientAnalytics =
  total_patients :: nat
  avg_comorbidities_per_patient :: json
  most_common_comorbidities :: obj
  most_effective_columns :: obj
  surgery_outcomes :: SurgeryAnalytics
  mortality_analytics :: MortalityAnalytics
  failure_cause_freq :: obj

subsection \<open>Operators and plain objects\<close>

text \<open>\<^verbatim>\<open>a + b\<close>, \<^verbatim>\<open>a / n\<close> for an array length \<open>n\<close>, \<^verbatim>\<open>a >= k\<close> and \<^verbatim>\<open>a > k\<close>.\<close>

definition js_add :: "js_env \<Rightarrow> json \<Rightarrow> json \<Rightarrow> json" where
  "js_add env a b =
     (case a of
        JNum x \<Rightarrow> (case b of JNum y \<Rightarrow> JNum (to_double (x + y)) | _ \<Rightarrow> plus_coerce env a b)
      | _ \<Rightarrow> plus_coerce env a b)"

definition js_div :: "js_env \<Rightarrow> json \<Rightarrow> nat \<Rightarrow> json" where
  "js_div env a n =
     (case a of JNum x \<Rightarrow> JNum (to_double (x / of_nat n)) | _ \<Rightarrow> div_coerce env a n)"

definition js_ge :: "js_env \<Rightarrow> json \<Rightarrow> rat \<Rightarrow> bool" where
  "js_ge env a k =
     (case a of
        JNum x \<Rightarrow> k \<le> x
      | _ \<Rightarrow> (case to_number env a of Some x \<Rightarrow> k \<le> x | None \<Rightarrow> False))"

definition js_gt :: "js_env \<Rightarrow> json \<Rightarrow> rat \<Rightarrow> bool" where
  "js_gt env a k =
     (case a of
        JNum x \<Rightarrow> k < x
      | _ \<Rightarrow> (case to_number env a of Some x \<Rightarrow> k < x | None \<Rightarrow> False))"

text \<open>A parameter declared with a default value takes it when the argument is \<^verbatim>\<open>undefined\<close>.\<close>

definition default_arg :: "json \<Rightarrow> json \<Rightarrow> json" where
  "default_arg x d = (if x = JUndefined then d else x)"

text \<open>\<^verbatim>\<open>typeof x\<close>\<close>

fun js_typeof :: "json \<Rightarrow> string" where
  "js_typeof JUndefined = ''undefined''"
| "js_typeof JNull = ''object''"
| "js_typeof (JBool b) = ''boolean''"
| "js_typeof (JNum x) = ''number''"
| "js_typeof (JStr s) = ''string''"
| "js_typeof (JArr xs) = ''object''"
| "js_typeof (JObj kvs) = ''object''"

text \<open>
  \<^verbatim>\<open>o[k]\<close> on an object created by \<^verbatim>\<open>{}\<close> reads the own property, or else what
  \<^verbatim>\<open>Object.prototype\<close> defines under that name. \<^verbatim>\<open>o[k] = v\<close> with a number or a
  string \<open>v\<close> creates or overwrites the own property, except for the key
  \<^verbatim>\<open>__proto__\<close>, where the inherited setter ignores such a value. \<^verbatim>\<open>Object.keys(o)\<close>
  lists the own keys (JavaScript lists keys that are array indices first; the model keeps
  the order of insertion).
\<close>

definition obj_get :: "js_env \<Rightarrow> obj \<Rightarrow> string \<Rightarrow> json" where
  "obj_get env m k = (case map_of m k of Some v \<Rightarrow> v | None \<Rightarrow> proto_member env k)"

fun obj_put :: "obj \<Rightarrow> string \<Rightarrow> json \<Rightarrow> obj" where
  "obj_put [] k v = [(k, v)]"
| "obj_put ((k', v') # m) k v = (if k' = k then (k, v) # m else (k', v') # obj_put m k v)"

definition obj_set :: "obj \<Rightarrow> string \<Rightarrow> json \<Rightarrow> obj" where
  "obj_set m k v = (if k = ''__proto__'' then m else obj_put m k v)"

definition Object_keys :: "obj \<Rightarrow> string list" where
  "Object_keys m = map fst m"

text \<open>\<^verbatim>\<open>counts[k] = (counts[k] || 0) + 1\<close>\<close>

definition bump :: "js_env \<Rightarrow> obj \<Rightarrow> string \<Rightarrow> obj" where
  "bump env counts k = obj_set counts k (js_add env (js_or (obj_get env counts k) (JNum 0)) (JNum 1))"

text \<open>
  \<^verbatim>\<open>xs.forEach(f)\<close> and \<^verbatim>\<open>xs.length > 0\<close> on a value typed \<^verbatim>\<open>any[]\<close> that is whatever
  the backend sent under \<^verbatim>\<open>matches\<close>: only an array has \<^verbatim>\<open>forEach\<close>.
\<close>

definition js_forEach :: "(json \<Rightarrow> 's \<Rightarrow> error + 's) \<Rightarrow> json \<Rightarrow> 's \<Rightarrow> error + 's" where
  "js_forEach f xs s = (case xs of JArr ys \<Rightarrow> forEachE f ys s | _ \<Rightarrow> Inl TypeError)"

definition length_positive :: "js_env \<Rightarrow> json \<Rightarrow> error + bool" where
  "length_positive env xs =
     (case xs of
        JArr ys \<Rightarrow> Inr (ys \<noteq> [])
      | JStr s \<Rightarrow> Inr (s \<noteq> [])
      | JObj kvs \<Rightarrow> Inr (js_gt env (opt_prop xs ''length'') 0)
      | JUndefined \<Rightarrow> Inl TypeError
      | JNull \<Rightarrow> Inl TypeError
      | _ \<Rightarrow> Inr False)"

section \<open>The analytics aggregator\<close>

text \<open>
  \<^verbatim>\<open>
  function extractFailureCauses(patientSummaries: any[]): Record<string, number> {
    const failureCauses: Record<string, number> = {};
    patientSummaries.forEach(patient => {
      if (patient.surgery_outcome === 'failure' && patient.failure_causes) {
        const causes = Array.isArray(patient.failure_causes) ? patient.failure_causes : [patient.failure_causes];
        causes.forEach((cause: string) => {
          if (cause && typeof cause === 'string' && cause.trim()) {
            const cleanCause = cause.trim();
            if (cleanCause !== 'null' && cleanCause !== '' && cleanCause !== 'undefined') {
              failureCauses[cleanCause] = (failureCauses[cleanCause] || 0) + 1;
            }
          }
        });
      }
    });
    return failureCauses;
  }
  \<close>
  The field \<open>failure_causes\<close> of a normalized record is an array, hence truthy.
\<close>

definition count_cause :: "js_env \<Rightarrow> obj \<Rightarrow> json \<Rightarrow> obj" where
  "count_cause env failureCauses cause =
     (case cause of
        JStr s \<Rightarrow>
          if s \<noteq> [] \<and> js_trim s \<noteq> [] then
            (let cleanCause = js_trim s in
             if cleanCause \<noteq> ''null'' \<and> cleanCause \<noteq> [] \<and> cleanCause \<noteq> ''undefined''
             then bump env failureCauses cleanCause else failureCauses)
          else failureCauses
      | _ \<Rightarrow> failureCauses)"

definition extractFailureCauses :: "js_env \<Rightarrow> PatientSummary list \<Rightarrow> obj" where
  "extractFailureCauses env patientSummaries =
     foldl (\<lambda>failureCauses patient.
              if surgery_outcome patient = JStr ''failure''
              then foldl (count_cause env) failureCauses (failure_causes patient)
              else failureCauses)
       [] patientSummaries"

text \<open>
  The summary of an empty patient list, returned before anything is computed
  (\<^verbatim>\<open>if (!patientSummaries || patientSummaries.length === 0) return { ... }\<close>).
\<close>

definition empty_analytics :: PatientAnalytics where
  "empty_analytics =
     \<lparr> total_patients = 0,
       avg_comorbidities_per_patient = JNum 0,
       most_common_comorbidities = [],
       most_effective_columns = [],
       surgery_outcomes = \<lparr> successful = 0, failed = 0, unknown = 0, success_rate = 0 \<rparr>,
       mortality_analytics =
         \<lparr> deceased_patients = 0, alive_patients = 0, mortality_rate = 0,
           mortality_cause_freq = [], failed_surgery_deaths = 0, success_surgery_deaths = 0,
           death_rate_in_failed = 0, death_rate_in_successful = 0,
           high_risk_comorbidities = [],
           risk_distribution = \<lparr> Critical = 0, High = 0, Medium = 0, Low = 0 \<rparr> \<rparr>,
       failure_cause_freq = [] \<rparr>"

text \<open>
  \<^verbatim>\<open>
  const totalPatients = patientSummaries.length;
  const surgeryOutcomes = {
    successful: patientSummaries.filter(p => p.surgery_outcome === 'success').length,
    failed: patientSummaries.filter(p => p.surgery_outcome === 'failure').length,
    unknown: patientSummaries.filter(p => p.surgery_outcome === 'unknown' || !p.surgery_outcome).length,
    success_rate: totalPatients > 0 ? (patientSummaries.filter(p => p.surgery_outcome === 'success').length / totalPatients) * 100 : 0
  };
  \<close>
\<close>

definition surgeryOutcomes :: "PatientSummary list \<Rightarrow> SurgeryAnalytics" where
  "surgeryOutcomes patientSummaries =
     (let totalPatients = length patientSummaries in
      \<lparr> successful = length (filter (\<lambda>p. surgery_outcome p = JStr ''success'') patientSummaries),
        failed = length (filter (\<lambda>p. surgery_outcome p = JStr ''failure'') patientSummaries),
        unknown = length (filter (\<lambda>p. surgery_outcome p = JStr ''unknown'' \<or> \<not> truthy (surgery_outcome p))
                            patientSummaries),
        success_rate =
          (if totalPatients > 0
           then js_percent (length (filter (\<lambda>p. surgery_outcome p = JStr ''success'') patientSummaries))
                  totalPatients
           else 0) \<rparr>)"

text \<open>
  The first loop over the patients: deaths by surgery outcome, and the causes of death.
  \<^verbatim>\<open>
  patientSummaries.forEach(patient => {
    if (patient.mortality_status === 'deceased') {
      if (patient.surgery_outcome === 'failure') { failedSurgeryDeaths++; }
      else if (patient.surgery_outcome === 'success') { successSurgeryDeaths++; }
      if (patient.mortality_causes && Array.isArray(patient.mortality_causes)) {
        patient.mortality_causes.forEach((cause: string) => {
          if (cause && cause.trim() && cause !== 'null') { allMortalityCauses.push(cause.trim()); }
        });
      }
    }
  });
  \<close>
  \<^verbatim>\<open>cause.trim()\<close> throws a TypeError when \<open>cause\<close> is truthy and not a string.
\<close>

record death_tally =
  allMortalityCauses :: "string list"
  failedSurgeryDeaths :: nat
  successSurgeryDeaths :: nat

definition push_cause :: "json \<Rightarrow> string list \<Rightarrow> error + string list" where
  "push_cause cause causes =
     (case cause of
        JStr s \<Rightarrow>
          if s \<noteq> [] \<and> js_trim s \<noteq> [] \<and> s \<noteq> ''null'' then Inr (causes @ [js_trim s])
          else Inr causes
      | _ \<Rightarrow> if truthy cause then Inl TypeError else Inr causes)"

definition tally_patient :: "PatientSummary \<Rightarrow> death_tally \<Rightarrow> error + death_tally" where
  "tally_patient patient t =
     (if mortality_status patient = JStr ''deceased'' then
        (let t' = (if surgery_outcome patient = JStr ''failure''
                   then t\<lparr>failedSurgeryDeaths := failedSurgeryDeaths t + 1\<rparr>
                   else if surgery_outcome patient = JStr ''success''
                   then t\<lparr>successSurgeryDeaths := successSurgeryDeaths t + 1\<rparr>
                   else t) in
         bindE (forEachE push_cause (mortality_causes patient) (allMortalityCauses t'))
           (\<lambda>causes. Inr (t'\<lparr>allMortalityCauses := causes\<rparr>)))
      else Inr t)"

text \<open>
  The second loop: the comorbidity names of \<^verbatim>\<open>primary_concerns\<close>.
  \<^verbatim>\<open>
  patient.primary_concerns.forEach((concern: any) => {
    let comorbidityName = '';
    if (typeof concern === 'string') { comorbidityName = concern; }
    else if (concern && typeof concern === 'object' && concern.comorbidity) {
      comorbidityName = concern.comorbidity;
    }
    if (comorbidityName && comorbidityName.trim()) {
      const cleanName = comorbidityName.trim();
      comorbidityCounts[cleanName] = (comorbidityCounts[cleanName] || 0) + 1;
    }
  });
  \<close>
\<close>

definition count_concern :: "js_env \<Rightarrow> json \<Rightarrow> obj \<Rightarrow> error + obj" where
  "count_concern env concern comorbidityCounts =
     (let comorbidityName =
            (if js_typeof concern = ''string'' then concern
             else if truthy concern \<and> js_typeof concern = ''object''
                     \<and> truthy (opt_prop concern ''comorbidity'')
             then opt_prop concern ''comorbidity''
             else JStr [])
      in case comorbidityName of
           JStr s \<Rightarrow>
             if s \<noteq> [] \<and> js_trim s \<noteq> [] then Inr (bump env comorbidityCounts (js_trim s))
             else Inr comorbidityCounts
         | _ \<Rightarrow> if truthy comorbidityName then Inl TypeError else Inr comorbidityCounts)"

text \<open>
  The fallback and the column counts read the match records.
  \<^verbatim>\<open>
  matches.forEach(match => {
    const comorbidityName = match.comorbidity_name;
    if (comorbidityName && comorbidityName.trim()) {
      comorbidityCounts[comorbidityName] = (comorbidityCounts[comorbidityName] || 0) + 1;
    }
  });
  \<close>
\<close>

definition count_match :: "js_env \<Rightarrow> string \<Rightarrow> json \<Rightarrow> obj \<Rightarrow> error + obj" where
  "count_match env field match counts =
     bindE (get_prop match field) (\<lambda>name.
       case name of
         JStr s \<Rightarrow> if s \<noteq> [] \<and> js_trim s \<noteq> [] then Inr (bump env counts s) else Inr counts
       | _ \<Rightarrow> if truthy name then Inl TypeError else Inr counts)"

text \<open>
  \<^verbatim>\<open>
  Object.keys(comorbidityCounts).forEach(comorbidity => {
    const patientsWithComorbidity = patientSummaries.filter(p =>
      p.primary_concerns && p.primary_concerns.includes(comorbidity));
    const deceasedWithComorbidity = patientsWithComorbidity.filter(p => p.mortality_status === 'deceased');
    if (patientsWithComorbidity.length > 0) {
      const mortalityRate = (deceasedWithComorbidity.length / patientsWithComorbidity.length) * 100;
      if (mortalityRate > 20) { highRiskComorbidities[comorbidity] = mortalityRate; }
    }
  });
  \<close>
  \<^verbatim>\<open>includes\<close> finds a string among the elements of an array exactly where an element is
  that string.
\<close>

definition high_risk_step :: "PatientSummary list \<Rightarrow> obj \<Rightarrow> string \<Rightarrow> obj" where
  "high_risk_step patientSummaries highRiskComorbidities comorbidity =
     (let patientsWithComorbidity =
            filter (\<lambda>p. JStr comorbidity \<in> set (primary_concerns p)) patientSummaries;
          deceasedWithComorbidity =
            filter (\<lambda>p. mortality_status p = JStr ''deceased'') patientsWithComorbidity
      in if length patientsWithComorbidity > 0 then
           (let mortalityRate =
                  js_percent (length deceasedWithComorbidity) (length patientsWithComorbidity)
            in if mortalityRate > (20 :: rat)
               then obj_set highRiskComorbidities comorbidity (JNum mortalityRate)
               else highRiskComorbidities)
         else highRiskComorbidities)"

text \<open>
  \<^verbatim>\<open>
  patientSummaries.forEach(patient => {
    const comorbidityCount = patient.total_comorbidities || 0;
    const isDeceased = patient.mortality_status === 'deceased';
    const isFailed = patient.surgery_outcome === 'failure';
    if (isDeceased && isFailed) { mortalityAnalytics.risk_distribution['Critical']++; }
    else if (isDeceased || (isFailed && comorbidityCount >= 3)) { mortalityAnalytics.risk_distribution['High']++; }
    else if (isFailed || comorbidityCount >= 2) { mortalityAnalytics.risk_distribution['Medium']++; }
    else { mortalityAnalytics.risk_distribution['Low']++; }
  });
  \<close>
\<close>

definition risk_step :: "js_env \<Rightarrow> RiskDistribution \<Rightarrow> PatientSummary \<Rightarrow> RiskDistribution" where
  "risk_step env rd patient =
     (let comorbidityCount = js_or (total_comorbidities patient) (JNum 0);
          isDeceased = (mortality_status patient = JStr ''deceased'');
          isFailed = (surgery_outcome patient = JStr ''failure'')
      in if isDeceased \<and> isFailed then rd\<lparr>Critical := Critical rd + 1\<rparr>
         else if isDeceased \<or> (isFailed \<and> js_ge env comorbidityCount 3) then rd\<lparr>High := High rd + 1\<rparr>
         else if isFailed \<or> js_ge env comorbidityCount 2 then rd\<lparr>Medium := Medium rd + 1\<rparr>
         else rd\<lparr>Low := Low rd + 1\<rparr>)"

text \<open>The statistics of a job, as the transformation rebuilds them and passes them on.\<close>

record job_stats =
  rows_processed :: json
  matches_found :: json
  processing_time :: json
  successful_surgeries :: json
  failed_surgeries :: json
  output_file_path :: json

text \<open>
  What the function returns once its loops have run: the object \<^verbatim>\<open>analytics\<close> with the
  final state of \<^verbatim>\<open>mortalityAnalytics\<close>, from the tally of the first loop, the comorbidity
  counts and the column counts.
\<close>

definition build_analytics ::
    "js_env \<Rightarrow> PatientSummary list \<Rightarrow> death_tally \<Rightarrow> obj \<Rightarrow> obj \<Rightarrow> PatientAnalytics" where
  "build_analytics env patientSummaries tally comorbidityCounts columnCounts =
     (let totalPatients = length patientSummaries;
          surgery = surgeryOutcomes patientSummaries;
          deceased = length (filter (\<lambda>p. mortality_status p = JStr ''deceased'') patientSummaries);
          alive = length (filter (\<lambda>p. mortality_status p = JStr ''alive'' \<or> \<not> truthy (mortality_status p))
                            patientSummaries);
          mortalityRate = (if totalPatients > 0 then js_percent deceased totalPatients else 0);
          mortalityCauseFreq = foldl (bump env) [] (allMortalityCauses tally);
          highRiskComorbidities =
            foldl (high_risk_step patientSummaries) [] (Object_keys comorbidityCounts);
          riskDistribution =
            foldl (risk_step env) \<lparr> Critical = 0, High = 0, Medium = 0, Low = 0 \<rparr> patientSummaries;
          totalComorbidities =
            foldl (\<lambda>sum p. js_add env sum (js_or (total_comorbidities p) (JNum 0))) (JNum 0)
              patientSummaries;
          avgComorbidities = js_div env totalComorbidities (length patientSummaries)
      in \<lparr> total_patients = length patientSummaries,
           avg_comorbidities_per_patient = avgComorbidities,
           most_common_comorbidities = comorbidityCounts,
           most_effective_columns = columnCounts,
           surgery_outcomes = surgery,
           mortality_analytics =
             \<lparr> deceased_patients = deceased,
               alive_patients = alive,
               mortality_rate = mortalityRate,
               mortality_cause_freq = mortalityCauseFreq,
               failed_surgery_deaths = failedSurgeryDeaths tally,
               success_surgery_deaths = successSurgeryDeaths tally,
               death_rate_in_failed =
                 (if failed surgery > 0
                  then js_percent (failedSurgeryDeaths tally) (failed surgery) else 0),
               death_rate_in_successful =
                 (if successful surgery > 0
                  then js_percent (successSurgeryDeaths tally) (successful surgery) else 0),
               high_risk_comorbidities = highRiskComorbidities,
               risk_distribution = riskDistribution \<rparr>,
           failure_cause_freq = extractFailureCauses env patientSummaries \<rparr>)"

text \<open>
  \<^verbatim>\<open>
  if (Object.keys(comorbidityCounts).length === 0 && matches.length > 0) {
    matches.forEach(match => { ... match.comorbidity_name ... });
  }
  \<close>
\<close>

definition comorbidity_fallback :: "js_env \<Rightarrow> json \<Rightarrow> obj \<Rightarrow> error + obj" where
  "comorbidity_fallback env matches comorbidityCounts =
     (if length (Object_keys comorbidityCounts) = 0
      then bindE (length_positive env matches)
             (\<lambda>some. if some
                     then js_forEach (count_match env ''comorbidity_name'') matches comorbidityCounts
                     else Inr comorbidityCounts)
      else Inr comorbidityCounts)"

text \<open>
  \<^verbatim>\<open>
  function generateEnhancedPatientAnalytics(patientSummaries: any[], stats: any,
                                            matches: any[] = [], existingAnalytics: any = {})
  \<close>
  The steps are those of the source, in its order: the early return for no patients, the
  outcome and mortality counts, the loop over the deceased, the frequency of the causes of
  death, the comorbidity counts with their fallback to the matches, the high-risk
  comorbidities, the risk distribution, the average, the column counts, and the failure
  causes. An exception of any step leaves the function. Neither \<^verbatim>\<open>stats\<close> nor
  \<^verbatim>\<open>existingAnalytics\<close> is read.
\<close>

definition generateEnhancedPatientAnalytics ::
    "js_env \<Rightarrow> PatientSummary list \<Rightarrow> job_stats \<Rightarrow> json \<Rightarrow> json \<Rightarrow> error + PatientAnalytics" where
  "generateEnhancedPatientAnalytics env patientSummaries stats matches_arg existingAnalytics =
     (let matches = default_arg matches_arg (JArr []) in
      if length patientSummaries = 0 then Inr empty_analytics
      else
        bindE (forEachE tally_patient patientSummaries
                 \<lparr> allMortalityCauses = [], failedSurgeryDeaths = 0, successSurgeryDeaths = 0 \<rparr>)
          (\<lambda>tally.
        bindE (forEachE (\<lambda>patient. forEachE (count_concern env) (primary_concerns patient))
                 patientSummaries [])
          (\<lambda>fromConcerns.
        bindE (comorbidity_fallback env matches fromConcerns)
          (\<lambda>comorbidityCounts.
        bindE (js_forEach (count_match env ''column_name'') matches [])
          (\<lambda>columnCounts.
        Inr (build_analytics env patientSummaries tally comorbidityCounts columnCounts))))))"

section \<open>The transformation of a job's results\<close>

text \<open>
  \<^verbatim>\<open>transformJobResultsForFrontend(backendData: any, format: string)\<close> builds the
  answer of the route \<^verbatim>\<open>job-results/<id>\<close>. Whatever is thrown inside is caught, and
  the backend's data is returned as it came (\<open>Inl\<close>).
\<close>

record job_summary =
  matches_by_comorbidity :: json
  matches_by_column :: json

record TransformedData =
  td_stats :: job_stats
  td_matches :: json
  td_summary :: job_summary
  td_patient_summaries :: "PatientSummary list option"
  td_patient_analytics :: "PatientAnalytics option"

definition transform_body :: "js_env \<Rightarrow> json \<Rightarrow> string \<Rightarrow> error + TransformedData" where
  "transform_body env backendData format =
     bindE (get_prop backendData ''stats'') (\<lambda>st.
     bindE (get_prop backendData ''matches'') (\<lambda>ms.
     bindE (get_prop backendData ''summary'') (\<lambda>su.
     let stats = \<lparr> rows_processed = js_or (opt_prop st ''rows_processed'') (JNum 0),
                   matches_found = js_or (opt_prop st ''matches_found'') (JNum 0),
                   processing_time = js_or (opt_prop st ''processing_time'') (JNum 0),
                   successful_surgeries = js_or (opt_prop st ''successful_surgeries'') (JNum 0),
                   failed_surgeries = js_or (opt_prop st ''failed_surgeries'') (JNum 0),
                   output_file_path = js_or (opt_prop st ''output_file_path'') JNull \<rparr>;
         matches = js_or ms (JArr []);
         summary = \<lparr> matches_by_comorbidity = js_or (opt_prop su ''matches_by_comorbidity'') (JObj []),
                     matches_by_column = js_or (opt_prop su ''matches_by_column'') (JObj []) \<rparr>
     in
     bindE (get_prop backendData ''patient_summaries'') (\<lambda>raw_summaries.
     bindE (if truthy raw_summaries
            then (case raw_summaries of
                    JArr xs \<Rightarrow> bindE (mapE (patient_callback env) xs) (\<lambda>ps. Inr (Some ps))
                  | _ \<Rightarrow> Inl TypeError)
            else Inr None) (\<lambda>summaries.
     bindE (if format = ''enhanced'' \<or> truthy raw_summaries
            then bindE (get_prop backendData ''patient_analytics'') (\<lambda>existing.
                   bindE (generateEnhancedPatientAnalytics env
                            (case summaries of Some ps \<Rightarrow> ps | None \<Rightarrow> [])
                            stats (js_or matches (JArr [])) existing)
                     (\<lambda>a. Inr (Some a)))
            else Inr None) (\<lambda>analytics.
     Inr \<lparr> td_stats = stats, td_matches = matches, td_summary = summary,
           td_patient_summaries = summaries, td_patient_analytics = analytics \<rparr>))))))"

definition transformJobResultsForFrontend :: "js_env \<Rightarrow> json \<Rightarrow> string \<Rightarrow> json + TransformedData" where
  "transformJobResultsForFrontend env backendData format =
     (case transform_body env backendData format of
        Inl e \<Rightarrow> Inl backendData
      | Inr transformedData \<Rightarrow> Inr transformedData)"

section \<open>The specification's reading of the risk levels\<close>

text \<open>
  The specification classifies every patient into exactly one level, the first that
  matches: Critical when deceased and the surgery failed; High when deceased, or the
  surgery failed with at least three comorbidities; Medium when the surgery failed, or
  with at least two comorbidities; Low otherwise. \<open>risk_level_of\<close> follows these words;
  \<open>patient_risk\<close> applies them to a normalized record, whose comorbidity count is
  \<^verbatim>\<open>total_comorbidities || 0\<close>.
\<close>

datatype risk_level = CriticalRisk | HighRisk | MediumRisk | LowRisk

definition risk_level_of :: "bool \<Rightarrow> bool \<Rightarrow> bool \<Rightarrow> bool \<Rightarrow> risk_level" where
  "risk_level_of deceased failed_surgery at_least_3 at_least_2 =
     (if deceased \<and> failed_surgery then CriticalRisk
      else if deceased \<or> (failed_surgery \<and> at_least_3) then HighRisk
      else if failed_surgery \<or> at_least_2 then MediumRisk
      else LowRisk)"

definition comorbidities_at_least :: "js_env \<Rightarrow> PatientSummary \<Rightarrow> rat \<Rightarrow> bool" where
  "comorbidities_at_least env p k = js_ge env (js_or (total_comorbidities p) (JNum 0)) k"

definition patient_risk :: "js_env \<Rightarrow> PatientSummary \<Rightarrow> risk_level" where
  "patient_risk env p =
     risk_level_of (mortality_status p = JStr ''deceased'') (surgery_outcome p = JStr ''failure'')
       (comorbidities_at_least env p 3) (comorbidities_at_least env p 2)"

definition count_risk :: "js_env \<Rightarrow> risk_level \<Rightarrow> PatientSummary list \<Rightarrow> nat" where
  "count_risk env l ps = length (filter (\<lambda>p. patient_risk env p = l) ps)"

text \<open>
  The mortality rate of a comorbidity: among the patients whose \<^verbatim>\<open>primary_concerns\<close>
  contain the name as an element, the percentage of the deceased, in the code's arithmetic.
\<close>

definition patients_with :: "string \<Rightarrow> PatientSummary list \<Rightarrow> PatientSummary list" where
  "patients_with name ps = filter (\<lambda>p. JStr name \<in> set (primary_concerns p)) ps"

definition subset_mortality_rate :: "string \<Rightarrow> PatientSummary list \<Rightarrow> rat" where
  "subset_mortality_rate name ps =
     js_percent (length (filter (\<lambda>p. mortality_status p = JStr ''deceased'') (patients_with name ps)))
       (length (patients_with name ps))"

text \<open>The number of patients with a given surgery outcome.\<close>

definition count_outcome :: "string \<Rightarrow> PatientSummary list \<Rightarrow> nat" where
  "count_outcome outcome ps = length (filter (\<lambda>p. surgery_outcome p = JStr outcome) ps)"

text \<open>A string without double quotes and square brackets.\<close>

definition unbracketed :: "string \<Rightarrow> bool" where
  "unbracketed t = (CHR 0x22 \<notin> set t \<and> CHR 0x5B \<notin> set t \<and> CHR 0x5D \<notin> set t)"

section \<open>Example inputs\<close>

text \<open>
  An environment for the examples: its \<^verbatim>\<open>JSON.parse\<close> decodes the one JSON text the
  examples use and rejects every other text (the examples give it none that is JSON), no
  value that is not a number converts to a number, and no name is inherited.
\<close>

definition sample_env :: js_env where
  "sample_env =
     \<lparr> JSON_parse = (\<lambda>s. if s = ''[\"a\",\"b\"]'' then Inr (JArr [JStr ''a'', JStr ''b''])
                          else Inl SyntaxError),
       to_number = (\<lambda>v. None),
       plus_coerce = (\<lambda>a b. JUndefined),
       div_coerce = (\<lambda>a n. JUndefined),
       proto_member = (\<lambda>k. JUndefined) \<rparr>"

text \<open>The record the callback returns for an object without properties, and its statistics.\<close>

definition blank_patient :: PatientSummary where
  "blank_patient =
     \<lparr> patient_id = JUndefined, total_comorbidities = JNum 0, highest_confidence = JNum 0,
       comorbidity_summary = JStr [], surgery_outcome = JStr ''unknown'', failure_causes = [],
       primary_concerns = [], comprehensive_summary = JStr [], columns_analyzed = JNum 0,
       mortality_status = JStr ''alive'', mortality_confidence = JNum 0, mortality_causes = [],
       time_of_death = JNull \<rparr>"

definition blank_stats :: job_stats where
  "blank_stats =
     \<lparr> rows_processed = JNum 0, matches_found = JNum 0, processing_time = JNum 0,
       successful_surgeries = JNum 0, failed_surgeries = JNum 0, output_file_path = JNull \<rparr>"

text \<open>A patient with the given surgery outcome, mortality status, comorbidity count and concerns.\<close>

definition a_patient :: "string \<Rightarrow> string \<Rightarrow> rat \<Rightarrow> json list \<Rightarrow> PatientSummary" where
  "a_patient outcome status n concerns =
     blank_patient\<lparr> surgery_outcome := JStr outcome, mortality_status := JStr status,
                    total_comorbidities := JNum n, primary_concerns := concerns \<rparr>"

text \<open>A value that is a string or falsy: what the loops can call \<^verbatim>\<open>trim\<close> on or skip.\<close>

definition string_or_falsy :: "json \<Rightarrow> bool" where
  "string_or_falsy v = (case v of JStr s \<Rightarrow> True | _ \<Rightarrow> \<not> truthy v)"

text \<open>A key of a frequency map that is neither empty nor one of the tokens \<open>null\<close> and \<open>undefined\<close>.\<close>

definition clean_key :: "string \<Rightarrow> bool" where
  "clean_key k = (k \<noteq> [] \<and> k \<noteq> ''null'' \<and> k \<noteq> ''undefined'')"

text \<open>
  A patient whose surgery failed and who died, with causes and concerns, and a match record.
\<close>

definition sample_patient :: PatientSummary where
  "sample_patient =
     blank_patient\<lparr> surgery_outcome := JStr ''failure'',
                    failure_causes := [JStr '' bleeding '', JStr ''null'', JStr [], JStr ''undefined'', JNull],
                    primary_concerns := [JStr ''Diabetes''],
                    mortality_status := JStr ''deceased'',
                    mortality_causes := [JStr ''sepsis''] \<rparr>"

definition sample_matches :: json where
  "sample_matches = JArr [JObj [(''column_name'', JStr ''notes''), (''comorbidity_name'', JStr ''Diabetes'')]]"

text \<open>
  Answers of the backend: one whose names and causes are the tokens \<open>null\<close> and
  \<open>undefined\<close>; one patient record whose list fields arrive as a list and as texts that
  are not JSON; one whose concern is a tagged object; one whose concern has a leading space.
\<close>

definition null_keys_input :: json where
  "null_keys_input =
     JObj [(''patient_summaries'',
              JArr [JObj [(''primary_concerns'', JArr [JStr ''null'', JStr ''undefined'']),
                          (''mortality_status'', JStr ''deceased''),
                          (''mortality_causes'', JArr [JStr '' null'', JStr ''undefined''])]]),
           (''matches'',
              JArr [JObj [(''column_name'', JStr ''null'')], JObj [(''column_name'', JStr ''undefined'')]])]"

definition raw_lists_patient :: json where
  "raw_lists_patient =
     JObj [(''failure_causes'', JArr [JStr ''null'', JStr '' x '', JStr [], JNum 5]),
           (''primary_concerns'', JStr ''a, null ,[b]''),
           (''mortality_causes'', JStr ''undefined,[ y]'')]"

definition tagged_concern_input :: json where
  "tagged_concern_input =
     JObj [(''patient_summaries'',
              JArr [JObj [(''primary_concerns'', JArr [JObj [(''comorbidity'', JStr ''Diabetes'')]]),
                          (''mortality_status'', JStr ''deceased'')]])]"

definition untrimmed_concern_input :: json where
  "untrimmed_concern_input =
     JObj [(''patient_summaries'',
              JArr [JObj [(''primary_concerns'', JArr [JStr '' Diabetes'']),
                          (''mortality_status'', JStr ''deceased'')]])]"

text \<open>Twenty patients: eleven successes and nine failures.\<close>

definition twenty_patients :: "PatientSummary list" where
  "twenty_patients =
     replicate 11 (a_patient ''success'' ''alive'' 0 [])
     @ replicate 9 (a_patient ''failure'' ''alive'' 0 [])"

text \<open>
  Two answers of the backend that differ only in their precomputed analytics; the cause of
  death of their patient is a number, on which \<^verbatim>\<open>trim\<close> cannot be called.
\<close>

definition failing_answer :: "json \<Rightarrow> json" where
  "failing_answer precomputed =
     JObj [(''patient_summaries'',
              JArr [JObj [(''mortality_status'', JStr ''deceased''),
                          (''mortality_causes'', JArr [JNum 5])]]),
           (''patient_analytics'', precomputed)]"

text \<open>Ten patients: six successes, three failures and one unknown outcome.\<close>

definition ten_patients :: "PatientSummary list" where
  "ten_patients =
     replicate 6 (a_patient ''success'' ''alive'' 0 [])
     @ replicate 3 (a_patient ''failure'' ''alive'' 0 [])
     @ [a_patient ''unknown'' ''alive'' 0 []]"

section \<open>The error of a rounding\<close>

text \<open>
  Rounding a positive number to a double changes it by at most the fraction \<open>2\<^sup>-\<^sup>5\<^sup>3\<close> of
  itself, so \<^verbatim>\<open>(a / b) * 100\<close> differs from the exact percentage by at most the fraction
  \<open>2\<^sup>-\<^sup>5\<^sup>1\<close> of it.
\<close>

lemma round_half_even_error: "\<bar>of_int (round_half_even m) - m\<bar> \<le> 1 / 2"
proof -
  have "of_int \<lfloor>m\<rfloor> \<le> m" "m < of_int \<lfloor>m\<rfloor> + 1"
    by linarith+
  then show ?thesis
    by (auto simp: round_half_even_def Let_def)
qed

lemma of_int_less_powi_bitlen:
  assumes "0 < p"
  shows "(of_int p :: rat) < 2 powi bitlen p" and "(2 :: rat) powi (bitlen p - 1) \<le> of_int p"
proof -
  have b: "2 ^ nat (bitlen p - 1) \<le> p" "p < 2 ^ nat (bitlen p)"
    using bitlen_bounds [OF assms] by simp_all
  have ge: "1 \<le> bitlen p"
    using assms bitlen_ge_iff_power [of 1 p] by simp
  have "(of_int p :: rat) < of_int (2 ^ nat (bitlen p))"
    using b(2) by (simp only: of_int_less_iff)
  also have "\<dots> = 2 powi bitlen p"
    using ge by (simp add: power_int_def)
  finally show "(of_int p :: rat) < 2 powi bitlen p" .
  have "(2 :: rat) powi (bitlen p - 1) = of_int (2 ^ nat (bitlen p - 1))"
    using ge by (simp add: power_int_def)
  also have "\<dots> \<le> of_int p"
    using b(1) by (simp only: of_int_le_iff)
  finally show "(2 :: rat) powi (bitlen p - 1) \<le> of_int p" .
qed

lemma binade_bounds:
  assumes "0 < x"
  shows "2 powi binade x \<le> x" and "x < 2 powi (binade x + 1)"
proof -
  obtain p q where pq: "quotient_of x = (p, q)" by (cases "quotient_of x")
  have q: "0 < q" using quotient_of_denom_pos [OF pq] .
  have x: "x = of_int p / of_int q" using quotient_of_div [OF pq] .
  have p: "0 < p"
    using assms q unfolding x by (simp add: zero_less_divide_iff)
  define k where "k = bitlen p - bitlen q"
  have Q: "(0 :: rat) < of_int q" using q by simp
  have lo: "(2 :: rat) powi (k - 1) \<le> x"
  proof -
    have k1: "k - 1 = (bitlen p - 1) - bitlen q" by (simp add: k_def)
    have "(2 :: rat) powi ((bitlen p - 1) - bitlen q) = 2 powi (bitlen p - 1) / 2 powi bitlen q"
      by (rule power_int_diff) simp
    also have "\<dots> \<le> of_int p / 2 powi bitlen q"
      using of_int_less_powi_bitlen(2) [OF p] by (simp add: divide_right_mono)
    also have "\<dots> \<le> of_int p / of_int q"
      using of_int_less_powi_bitlen(1) [OF q] p Q by (simp add: frac_le)
    finally show ?thesis unfolding x k1 .
  qed
  have hi: "x < (2 :: rat) powi (k + 1)"
  proof -
    have "x = of_int p / of_int q" by (rule x)
    also have "\<dots> < 2 powi bitlen p / of_int q"
      using of_int_less_powi_bitlen(1) [OF p] Q by (simp add: divide_strict_right_mono)
    also have "\<dots> \<le> 2 powi bitlen p / 2 powi (bitlen q - 1)"
      using of_int_less_powi_bitlen(2) [OF q] by (simp add: frac_le)
    also have "\<dots> = 2 powi (bitlen p - (bitlen q - 1))"
      by (rule power_int_diff [symmetric]) simp
    finally have "x < 2 powi (bitlen p - (bitlen q - 1))" .
    moreover have "bitlen p - (bitlen q - 1) = k + 1" by (simp add: k_def)
    ultimately show ?thesis by (simp only:)
  qed
  have b: "binade x = (if 2 powi k \<le> x then k else k - 1)"
    by (simp add: binade_def pq k_def)
  show "2 powi binade x \<le> x"
    using lo unfolding b by simp
  show "x < 2 powi (binade x + 1)"
    using hi unfolding b by (simp add: not_le)
qed

lemma to_double_error:
  assumes "0 < x"
  shows "\<bar>to_double x - x\<bar> \<le> x / 2 ^ 53"
proof -
  define e where "e = binade x - 52"
  define s :: rat where "s = 2 powi e"
  define m where "m = x / s"
  have s: "0 < s" by (simp add: s_def)
  have td: "to_double x = of_int (round_half_even m) * s"
    using assms by (simp add: to_double_def Let_def e_def s_def m_def)
  have "2 powi binade x = s * 2 ^ 52"
  proof -
    have "binade x = e + 52" by (simp add: e_def)
    then show ?thesis by (simp add: s_def power_int_add)
  qed
  then have xs: "s * 2 ^ 52 \<le> x"
    using binade_bounds(1) [OF assms] by simp
  have "to_double x - x = (of_int (round_half_even m) - m) * s"
    using s by (simp add: td m_def algebra_simps)
  then have "\<bar>to_double x - x\<bar> = \<bar>of_int (round_half_even m) - m\<bar> * s"
    using s by (simp add: abs_mult)
  also have "\<dots> \<le> (1 / 2) * s"
    using round_half_even_error [of m] s by (simp add: mult_right_mono)
  also have "\<dots> \<le> x / 2 ^ 53"
    using xs by simp
  finally show ?thesis .
qed

lemma to_double_zero [simp]: "to_double 0 = 0"
  by (simp add: to_double_def)

lemma js_percent_error:
  "\<bar>js_percent a b - of_nat a / of_nat b * 100\<bar> \<le> (of_nat a / of_nat b * 100) / 2 ^ 51"
proof (cases "(of_nat a / of_nat b :: rat) = 0")
  case True
  have "js_percent a b = 0"
    by (simp only: js_percent_def True to_double_zero mult_zero_left)
  then show ?thesis by (simp only: True) 
next
  case False
  define q :: rat where "q = of_nat a / of_nat b"
  define y where "y = to_double q"
  have "0 \<le> q" by (simp add: q_def)
  moreover have "q \<noteq> 0" using False by (simp only: q_def not_False_eq_True)
  ultimately have q: "0 < q" by simp
  have 1: "\<bar>y - q\<bar> \<le> q / 2 ^ 53"
    unfolding y_def by (rule to_double_error [OF q])
  have h: "q / 2 ^ 53 \<le> q / 2"
    using q by (intro divide_left_mono) simp_all
  have y: "0 < y" "y \<le> 2 * q"
    using 1 h q unfolding abs_le_iff by linarith+
  have 2: "\<bar>to_double (y * 100) - y * 100\<bar> \<le> (y * 100) / 2 ^ 53"
    using y(1) by (intro to_double_error) simp
  define t where "t = to_double (y * 100)"
  have "t - q * 100 = (t - y * 100) + (y - q) * 100" by (simp add: algebra_simps)
  then have "\<bar>t - q * 100\<bar> \<le> \<bar>t - y * 100\<bar> + \<bar>(y - q) * 100\<bar>"
    by (simp only: abs_triangle_ineq)
  also have "\<bar>(y - q) * 100\<bar> = \<bar>y - q\<bar> * 100"
    by (simp only: abs_mult abs_numeral)
  finally have 3: "\<bar>t - q * 100\<bar> \<le> \<bar>t - y * 100\<bar> + \<bar>y - q\<bar> * 100" .
  have 4: "(y * 100) / 2 ^ 53 \<le> (2 * q * 100) / 2 ^ 53"
    using y(2) by (simp add: divide_right_mono)
  have 5: "(2 * q * 100) / 2 ^ 53 + (q / 2 ^ 53) * 100 \<le> (q * 100) / 2 ^ 51"
    using q by simp
  have "\<bar>t - q * 100\<bar> \<le> (q * 100) / 2 ^ 51"
    using 1 2 3 4 5 unfolding t_def by linarith
  then show ?thesis
    by (simp only: js_percent_def q_def y_def t_def)

qed

text \<open>Percentages of the examples: some are exact, 11 of 20 is not.\<close>

lemma js_percent_6_10: "js_percent 6 10 = 60"
  by code_simp

lemma js_percent_11_20: "js_percent 11 20 = 55 + 1 / 2 ^ 47"
  by code_simp

lemma js_percent_2_5: "js_percent 2 5 = 40"
  by code_simp

lemma js_percent_1_10: "js_percent (Suc 0) 10 = 10"
  by code_simp

section \<open>Sequencing and property reads\<close>

lemma bindE_Inr_iff: "bindE m f = Inr y \<longleftrightarrow> (\<exists>v. m = Inr v \<and> f v = Inr y)"
  by (cases m) (simp_all add: bindE_def)

lemma bindE_Inr [simp]: "bindE (Inr v) f = f v"
  by (simp add: bindE_def)

lemma bindE_Inl [simp]: "bindE (Inl e) f = Inl e"
  by (simp add: bindE_def)

lemma safeParseJSONArray_returns: "\<exists>ys. safeParseJSONArray env x fallback = Inr ys"
  by (cases x; cases "JSON_parse env (case x of JStr s \<Rightarrow> s | _ \<Rightarrow> [])")
     (simp_all add: safeParseJSONArray_def try_catch_def)

lemma get_prop_opt: "x \<noteq> JNull \<Longrightarrow> x \<noteq> JUndefined \<Longrightarrow> get_prop x k = Inr (opt_prop x k)"
  by (cases x) (simp_all add: opt_prop_def)

lemma get_prop_Inr: "get_prop x k = Inr v \<Longrightarrow> x \<noteq> JNull \<and> x \<noteq> JUndefined \<and> v = opt_prop x k"
  by (cases x) (auto simp: opt_prop_def)

lemma patient_callback_returns:
  assumes "patient \<noteq> JNull" "patient \<noteq> JUndefined"
  obtains fc pc mc where
    "safeParseJSONArray env (opt_prop patient ''failure_causes'') [] = Inr fc"
    "safeParseJSONArray env (opt_prop patient ''primary_concerns'') [] = Inr pc"
    "safeParseJSONArray env (opt_prop patient ''mortality_causes'') [] = Inr mc"
    "patient_callback env patient =
       Inr \<lparr> patient_id = opt_prop patient ''patient_id'',
           total_comorbidities = js_or (opt_prop patient ''total_comorbidities'') (JNum 0),
           highest_confidence = js_or (opt_prop patient ''highest_confidence'') (JNum 0),
           comorbidity_summary = js_or (opt_prop patient ''comorbidity_summary'') (JStr []),
           surgery_outcome = surgeryOutcome (opt_prop patient ''surgery_outcome''),
           failure_causes = fc,
           primary_concerns = pc,
           comprehensive_summary = js_or (opt_prop patient ''comprehensive_summary'') (JStr []),
           columns_analyzed = js_or (opt_prop patient ''columns_analyzed'') (JNum 0),
           mortality_status = mortalityStatus (opt_prop patient ''mortality_status''),
           mortality_confidence = js_or (opt_prop patient ''mortality_confidence'') (JNum 0),
           mortality_causes = mc,
           time_of_death = js_or (opt_prop patient ''time_of_death'') JNull \<rparr>"
proof -
  obtain fc where fc: "safeParseJSONArray env (opt_prop patient ''failure_causes'') [] = Inr fc"
    using safeParseJSONArray_returns by blast
  obtain pc where pc: "safeParseJSONArray env (opt_prop patient ''primary_concerns'') [] = Inr pc"
    using safeParseJSONArray_returns by blast
  obtain mc where mc: "safeParseJSONArray env (opt_prop patient ''mortality_causes'') [] = Inr mc"
    using safeParseJSONArray_returns by blast
  show thesis
    by (rule that [OF fc pc mc]) (simp add: patient_callback_def get_prop_opt [OF assms] fc pc mc)
qed

lemma patient_callback_Inr:
  assumes "patient_callback env patient = Inr p"
  shows "patient \<noteq> JNull" "patient \<noteq> JUndefined"
  using assms by (auto simp: patient_callback_def)

section \<open>Normalization of a patient record\<close>

text \<open>
  Claim C6. \<open>safeParseJSONArray\<close> (the specification's \<^verbatim>\<open>normalizeStringList\<close>) turns the
  text \<^verbatim>\<open>["a","b"]\<close> into the list of \<open>a\<close> and \<open>b\<close>, the text \<^verbatim>\<open>a,b,c\<close> into the list of
  \<open>a\<close>, \<open>b\<close> and \<open>c\<close>, and \<^verbatim>\<open>null\<close> into the empty fallback; and for every input and every
  fallback it returns a list and throws nothing. The two hypotheses say what
  \<^verbatim>\<open>JSON.parse\<close> does with the two texts: it decodes the first and rejects the second.
\<close>

theorem safeParseJSONArray_examples:
  assumes "JSON_parse env ''[\"a\",\"b\"]'' = Inr (JArr [JStr ''a'', JStr ''b''])"
      and "JSON_parse env ''a,b,c'' = Inl e"
  shows "safeParseJSONArray env (JStr ''[\"a\",\"b\"]'') [] = Inr [JStr ''a'', JStr ''b'']
       \<and> safeParseJSONArray env (JStr ''a,b,c'') [] = Inr [JStr ''a'', JStr ''b'', JStr ''c'']
       \<and> safeParseJSONArray env JNull [] = Inr []
       \<and> (\<forall>x fallback. \<exists>ys. safeParseJSONArray env x fallback = Inr ys)"
proof -
  have 1: "safeParseJSONArray env (JStr ''[\"a\",\"b\"]'') [] = Inr [JStr ''a'', JStr ''b'']"
    using assms(1) by (simp add: safeParseJSONArray_def try_catch_def js_trim_def js_space_def)
  have 2: "safeParseJSONArray env (JStr ''a,b,c'') [] = Inr [JStr ''a'', JStr ''b'', JStr ''c'']"
    using assms(2)
    by (simp add: safeParseJSONArray_def try_catch_def js_trim_def js_space_def strip_brackets_def)
  have 3: "safeParseJSONArray env JNull [] = Inr []"
    by (simp add: safeParseJSONArray_def)
  from 1 2 3 safeParseJSONArray_returns show ?thesis by blast
qed

theorem safeParseJSONArray_examples_witness:
  "safeParseJSONArray sample_env (JStr ''[\"a\",\"b\"]'') [] = Inr [JStr ''a'', JStr ''b'']
   \<and> safeParseJSONArray sample_env (JStr ''a,b,c'') [] = Inr [JStr ''a'', JStr ''b'', JStr ''c'']
   \<and> safeParseJSONArray sample_env JNull [] = Inr []
   \<and> (\<forall>x fallback. \<exists>ys. safeParseJSONArray sample_env x fallback = Inr ys)"
proof -
  have a: "JSON_parse sample_env ''[\"a\",\"b\"]'' = Inr (JArr [JStr ''a'', JStr ''b''])"
    by (simp add: sample_env_def)
  have b: "JSON_parse sample_env ''a,b,c'' = Inl SyntaxError"
    by (simp add: sample_env_def)
  show ?thesis by (rule safeParseJSONArray_examples [OF a b])
qed

text \<open>
  Claim C1, as amended. The normalization of \<^verbatim>\<open>surgery_outcome\<close> keeps every truthy raw
  value as it is, so \<open>success\<close>, \<open>failure\<close> and \<open>unknown\<close> are kept, and so is any other
  non-empty string; it gives \<open>unknown\<close> exactly for a raw value that is missing, \<^verbatim>\<open>null\<close>,
  empty or otherwise falsy. A missing or empty outcome therefore never becomes \<open>success\<close>.
  The callback returns a record for every element but \<^verbatim>\<open>null\<close>.
\<close>

theorem surgery_outcome_normalization:
  assumes "patient \<noteq> JNull" and "patient \<noteq> JUndefined"
    and "raw = opt_prop patient ''surgery_outcome''"
  shows "\<exists>p. patient_callback env patient = Inr p
           \<and> (truthy raw \<longrightarrow> surgery_outcome p = raw)
           \<and> (\<not> truthy raw \<longrightarrow> surgery_outcome p = JStr ''unknown'')
           \<and> (raw \<in> {JStr ''success'', JStr ''failure'', JStr ''unknown''} \<longrightarrow> surgery_outcome p = raw)
           \<and> (raw \<in> {JUndefined, JNull, JStr []} \<longrightarrow> surgery_outcome p = JStr ''unknown'')
           \<and> (surgery_outcome p = JStr ''success'' \<longrightarrow> raw = JStr ''success'')"
proof -
  obtain fc pc mc where
    cb: "patient_callback env patient =
       Inr \<lparr> patient_id = opt_prop patient ''patient_id'',
           total_comorbidities = js_or (opt_prop patient ''total_comorbidities'') (JNum 0),
           highest_confidence = js_or (opt_prop patient ''highest_confidence'') (JNum 0),
           comorbidity_summary = js_or (opt_prop patient ''comorbidity_summary'') (JStr []),
           surgery_outcome = surgeryOutcome (opt_prop patient ''surgery_outcome''),
           failure_causes = fc,
           primary_concerns = pc,
           comprehensive_summary = js_or (opt_prop patient ''comprehensive_summary'') (JStr []),
           columns_analyzed = js_or (opt_prop patient ''columns_analyzed'') (JNum 0),
           mortality_status = mortalityStatus (opt_prop patient ''mortality_status''),
           mortality_confidence = js_or (opt_prop patient ''mortality_confidence'') (JNum 0),
           mortality_causes = mc,
           time_of_death = js_or (opt_prop patient ''time_of_death'') JNull \<rparr>"
    using patient_callback_returns [OF assms(1,2)] by metis
  show ?thesis
    unfolding cb assms(3) [symmetric]
    by (cases raw) (auto simp: surgeryOutcome_def)
qed

theorem surgery_outcome_normalization_witness:
  "\<exists>p. patient_callback sample_env (JObj [(''surgery_outcome'', JStr [])]) = Inr p
       \<and> surgery_outcome p = JStr ''unknown''"
  using surgery_outcome_normalization [of "JObj [(''surgery_outcome'', JStr [])]" "JStr []" sample_env]
  by (auto simp: opt_prop_def)

text \<open>
  The claim as the specification states it, that every raw value other than the three
  outcomes gives \<open>unknown\<close>, fails: the outcome \<open>partial\<close> is preserved.
\<close>

theorem unrecognised_outcome_kept:
  "patient_callback sample_env (JObj [(''surgery_outcome'', JStr ''partial'')])
     = Inr (blank_patient\<lparr>surgery_outcome := JStr ''partial''\<rparr>)
   \<and> JStr ''partial'' \<notin> {JStr ''success'', JStr ''failure'', JStr ''unknown''}"
  by (simp add: patient_callback_def safeParseJSONArray_def opt_prop_def js_or_def
      surgeryOutcome_def mortalityStatus_def blank_patient_def)

text \<open>What \<open>safeParseJSONArray\<close> returns, case by case.\<close>

lemma unbracketed_strip: "unbracketed (strip_brackets s)"
  by (simp add: unbracketed_def strip_brackets_def)

lemma safeParseJSONArray_array: "safeParseJSONArray env (JArr xs) fb = Inr xs"
  by (simp add: safeParseJSONArray_def)

lemma safeParseJSONArray_decoded_array:
  "js_trim s \<noteq> [] \<Longrightarrow> JSON_parse env s = Inr (JArr ys) \<Longrightarrow> safeParseJSONArray env (JStr s) fb = Inr ys"
  by (simp add: safeParseJSONArray_def try_catch_def)

lemma safeParseJSONArray_decoded_scalar:
  "js_trim s \<noteq> [] \<Longrightarrow> JSON_parse env s = Inr v \<Longrightarrow> \<forall>ys. v \<noteq> JArr ys \<Longrightarrow>
   safeParseJSONArray env (JStr s) fb = Inr [v]"
  by (cases v) (simp_all add: safeParseJSONArray_def try_catch_def)

lemma safeParseJSONArray_pieces:
  assumes "js_trim s \<noteq> []" and "JSON_parse env s = Inl e" and "CHR 0x2C \<in> set s"
  shows "\<exists>ts. safeParseJSONArray env (JStr s) fb = Inr (map JStr ts)
           \<and> (\<forall>t\<in>set ts. t \<noteq> [] \<and> unbracketed t)"
proof -
  let ?ts = "filter (\<lambda>t. t \<noteq> []) (map (\<lambda>t. strip_brackets (js_trim t)) (split_on CHR 0x2C s))"
  have "safeParseJSONArray env (JStr s) fb = Inr (map JStr ?ts)"
    using assms by (simp add: safeParseJSONArray_def try_catch_def)
  moreover have "\<forall>t\<in>set ?ts. t \<noteq> [] \<and> unbracketed t"
    by (auto simp: unbracketed_strip)
  ultimately show ?thesis by blast
qed

lemma safeParseJSONArray_single:
  "js_trim s \<noteq> [] \<Longrightarrow> JSON_parse env s = Inl e \<Longrightarrow> CHR 0x2C \<notin> set s \<Longrightarrow>
   safeParseJSONArray env (JStr s) fb = Inr [JStr (strip_brackets s)]"
  by (simp add: safeParseJSONArray_def try_catch_def)

lemma safeParseJSONArray_fallback:
  "\<forall>xs. x \<noteq> JArr xs \<Longrightarrow> \<forall>s. x = JStr s \<longrightarrow> js_trim s = [] \<Longrightarrow> safeParseJSONArray env x fb = Inr fb"
  by (cases x) (simp_all add: safeParseJSONArray_def)

lemma patient_callback_lists:
  assumes "patient_callback env patient = Inr p"
  shows "safeParseJSONArray env (opt_prop patient ''failure_causes'') [] = Inr (failure_causes p)"
    and "safeParseJSONArray env (opt_prop patient ''primary_concerns'') [] = Inr (primary_concerns p)"
    and "safeParseJSONArray env (opt_prop patient ''mortality_causes'') [] = Inr (mortality_causes p)"
proof -
  have n: "patient \<noteq> JNull" "patient \<noteq> JUndefined"
    using patient_callback_Inr [OF assms] by simp_all
  show "safeParseJSONArray env (opt_prop patient ''failure_causes'') [] = Inr (failure_causes p)"
    and "safeParseJSONArray env (opt_prop patient ''primary_concerns'') [] = Inr (primary_concerns p)"
    and "safeParseJSONArray env (opt_prop patient ''mortality_causes'') [] = Inr (mortality_causes p)"
    using assms patient_callback_returns [OF n, of env]
    by (metis PatientSummary.select_convs(6,7,12) sum.inject(2))+
qed

text \<open>
  Claim C7, as amended. The normalization of \<^verbatim>\<open>failure_causes\<close>, \<^verbatim>\<open>primary_concerns\<close> and
  \<^verbatim>\<open>mortality_causes\<close> always yields a list, the result of \<open>safeParseJSONArray\<close> on the
  raw value: a proper list is returned unchanged; a text that \<^verbatim>\<open>JSON.parse\<close> decodes gives
  the decoded array, or the one-element list of the decoded scalar; a text it rejects
  gives, with a comma, only non-empty strings without double quotes and square brackets,
  and without a comma the one string with these characters removed; a blank string and
  every other value give the empty list. Nothing else is trimmed or filtered.
\<close>

theorem list_fields_normalization:
  assumes "patient_callback env patient = Inr p"
  shows "safeParseJSONArray env (opt_prop patient ''failure_causes'') [] = Inr (failure_causes p)
       \<and> safeParseJSONArray env (opt_prop patient ''primary_concerns'') [] = Inr (primary_concerns p)
       \<and> safeParseJSONArray env (opt_prop patient ''mortality_causes'') [] = Inr (mortality_causes p)
       \<and> (\<forall>xs fb. safeParseJSONArray env (JArr xs) fb = Inr xs)
       \<and> (\<forall>s fb ys. js_trim s \<noteq> [] \<and> JSON_parse env s = Inr (JArr ys)
             \<longrightarrow> safeParseJSONArray env (JStr s) fb = Inr ys)
       \<and> (\<forall>s fb v. js_trim s \<noteq> [] \<and> JSON_parse env s = Inr v \<and> (\<forall>ys. v \<noteq> JArr ys)
             \<longrightarrow> safeParseJSONArray env (JStr s) fb = Inr [v])
       \<and> (\<forall>s fb e. js_trim s \<noteq> [] \<and> JSON_parse env s = Inl e \<and> CHR 0x2C \<in> set s
             \<longrightarrow> (\<exists>ts. safeParseJSONArray env (JStr s) fb = Inr (map JStr ts)
                    \<and> (\<forall>t\<in>set ts. t \<noteq> [] \<and> unbracketed t)))
       \<and> (\<forall>s fb e. js_trim s \<noteq> [] \<and> JSON_parse env s = Inl e \<and> CHR 0x2C \<notin> set s
             \<longrightarrow> safeParseJSONArray env (JStr s) fb = Inr [JStr (strip_brackets s)]
               \<and> unbracketed (strip_brackets s))
       \<and> (\<forall>x fb. (\<forall>xs. x \<noteq> JArr xs) \<and> (\<forall>s. x = JStr s \<longrightarrow> js_trim s = [])
             \<longrightarrow> safeParseJSONArray env x fb = Inr fb)"
proof (intro conjI)
  show "safeParseJSONArray env (opt_prop patient ''failure_causes'') [] = Inr (failure_causes p)"
    by (rule patient_callback_lists(1) [OF assms])
  show "safeParseJSONArray env (opt_prop patient ''primary_concerns'') [] = Inr (primary_concerns p)"
    by (rule patient_callback_lists(2) [OF assms])
  show "safeParseJSONArray env (opt_prop patient ''mortality_causes'') [] = Inr (mortality_causes p)"
    by (rule patient_callback_lists(3) [OF assms])
  show "\<forall>xs fb. safeParseJSONArray env (JArr xs) fb = Inr xs"
    by (simp add: safeParseJSONArray_array)
  show "\<forall>s fb ys. js_trim s \<noteq> [] \<and> JSON_parse env s = Inr (JArr ys)
             \<longrightarrow> safeParseJSONArray env (JStr s) fb = Inr ys"
    by (simp add: safeParseJSONArray_decoded_array)
  show "\<forall>s fb v. js_trim s \<noteq> [] \<and> JSON_parse env s = Inr v \<and> (\<forall>ys. v \<noteq> JArr ys)
             \<longrightarrow> safeParseJSONArray env (JStr s) fb = Inr [v]"
    using safeParseJSONArray_decoded_scalar by blast
  show "\<forall>s fb e. js_trim s \<noteq> [] \<and> JSON_parse env s = Inl e \<and> CHR 0x2C \<in> set s
             \<longrightarrow> (\<exists>ts. safeParseJSONArray env (JStr s) fb = Inr (map JStr ts)
                    \<and> (\<forall>t\<in>set ts. t \<noteq> [] \<and> unbracketed t))"
    using safeParseJSONArray_pieces by blast
  show "\<forall>s fb e. js_trim s \<noteq> [] \<and> JSON_parse env s = Inl e \<and> CHR 0x2C \<notin> set s
             \<longrightarrow> safeParseJSONArray env (JStr s) fb = Inr [JStr (strip_brackets s)]
               \<and> unbracketed (strip_brackets s)"
    using safeParseJSONArray_single unbracketed_strip by blast
  show "\<forall>x fb. (\<forall>xs. x \<noteq> JArr xs) \<and> (\<forall>s. x = JStr s \<longrightarrow> js_trim s = [])
             \<longrightarrow> safeParseJSONArray env x fb = Inr fb"
    using safeParseJSONArray_fallback by blast
qed

theorem list_fields_normalization_witness:
  "safeParseJSONArray sample_env (opt_prop raw_lists_patient ''primary_concerns'') []
     = Inr [JStr ''a'', JStr ''null'', JStr ''b'']
   \<and> safeParseJSONArray sample_env (opt_prop raw_lists_patient ''failure_causes'') []
     = Inr [JStr ''null'', JStr '' x '', JStr [], JNum 5]"
proof -
  have h: "patient_callback sample_env raw_lists_patient
     = Inr (blank_patient\<lparr> failure_causes := [JStr ''null'', JStr '' x '', JStr [], JNum 5],
                            primary_concerns := [JStr ''a'', JStr ''null'', JStr ''b''],
                            mortality_causes := [JStr ''undefined'', JStr '' y''] \<rparr>)"
    by code_simp
  show ?thesis
    using list_fields_normalization [OF h] by simp
qed

text \<open>
  The claim as the specification states it, that the normalized lists hold only trimmed
  non-empty strings and neither \<open>null\<close> nor \<open>undefined\<close>, fails: a list arrives with the
  token \<open>null\<close>, an untrimmed string, an empty string and a number and is kept as it is,
  and the pieces of a text that is not JSON keep the tokens and a leading space.
\<close>

theorem unfiltered_list_fields:
  "patient_callback sample_env raw_lists_patient
   = Inr (blank_patient\<lparr> failure_causes := [JStr ''null'', JStr '' x '', JStr [], JNum 5],
                          primary_concerns := [JStr ''a'', JStr ''null'', JStr ''b''],
                          mortality_causes := [JStr ''undefined'', JStr '' y''] \<rparr>)"
  by code_simp

section \<open>What the aggregator returns\<close>

text \<open>
  When the aggregator returns, its result is the summary of the empty list or the object
  built from the results of its loops.
\<close>

lemma generate_Inr_cases:
  assumes "generateEnhancedPatientAnalytics env ps st m ea = Inr a"
  shows "(ps = [] \<and> a = empty_analytics) \<or>
         (ps \<noteq> [] \<and> (\<exists>tally fromConcerns counts cols.
            forEachE tally_patient ps
              \<lparr> allMortalityCauses = [], failedSurgeryDeaths = 0, successSurgeryDeaths = 0 \<rparr> = Inr tally
          \<and> forEachE (\<lambda>patient. forEachE (count_concern env) (primary_concerns patient)) ps [] = Inr fromConcerns
          \<and> comorbidity_fallback env (default_arg m (JArr [])) fromConcerns = Inr counts
          \<and> js_forEach (count_match env ''column_name'') (default_arg m (JArr [])) [] = Inr cols
          \<and> a = build_analytics env ps tally counts cols))"
proof (cases "ps = []")
  case True
  with assms show ?thesis by (simp add: generateEnhancedPatientAnalytics_def)
next
  case False
  with assms show ?thesis
    by (simp add: generateEnhancedPatientAnalytics_def bindE_Inr_iff Let_def) blast
qed

lemma empty_analytics_fields:
  "total_patients empty_analytics = 0"
  "surgery_outcomes empty_analytics = surgeryOutcomes []"
  "risk_distribution (mortality_analytics empty_analytics) =
     \<lparr> Critical = 0, High = 0, Medium = 0, Low = 0 \<rparr>"
  "failure_cause_freq empty_analytics = []"
  "most_common_comorbidities empty_analytics = []"
  "most_effective_columns empty_analytics = []"
  "mortality_cause_freq (mortality_analytics empty_analytics) = []"
  "high_risk_comorbidities (mortality_analytics empty_analytics) = []"
  by (simp_all add: empty_analytics_def surgeryOutcomes_def)

lemma build_analytics_fields:
  "total_patients (build_analytics env ps t c k) = length ps"
  "surgery_outcomes (build_analytics env ps t c k) = surgeryOutcomes ps"
  "risk_distribution (mortality_analytics (build_analytics env ps t c k)) =
     foldl (risk_step env) \<lparr> Critical = 0, High = 0, Medium = 0, Low = 0 \<rparr> ps"
  "failure_cause_freq (build_analytics env ps t c k) = extractFailureCauses env ps"
  "most_common_comorbidities (build_analytics env ps t c k) = c"
  "most_effective_columns (build_analytics env ps t c k) = k"
  "mortality_cause_freq (mortality_analytics (build_analytics env ps t c k)) =
     foldl (bump env) [] (allMortalityCauses t)"
  "high_risk_comorbidities (mortality_analytics (build_analytics env ps t c k)) =
     foldl (high_risk_step ps) [] (Object_keys c)"
  by (simp_all add: build_analytics_def Let_def)

lemma generate_Inr_fields:
  assumes "generateEnhancedPatientAnalytics env ps st m ea = Inr a"
  shows "total_patients a = length ps"
    and "surgery_outcomes a = surgeryOutcomes ps"
    and "risk_distribution (mortality_analytics a) =
           foldl (risk_step env) \<lparr> Critical = 0, High = 0, Medium = 0, Low = 0 \<rparr> ps"
    and "failure_cause_freq a = extractFailureCauses env ps"
  using generate_Inr_cases [OF assms]
  by (auto simp: build_analytics_fields empty_analytics_fields extractFailureCauses_def)

text \<open>
  The aggregator returns whenever the causes of death and the concerns are strings (or
  falsy) and the matches are an array of objects whose names are strings or missing.
\<close>

lemma forEachE_returns:
  "(\<forall>x\<in>set xs. \<forall>t. \<exists>t'. f x t = Inr t') \<Longrightarrow> \<exists>s'. forEachE f xs s = Inr s'"
proof (induction xs arbitrary: s)
  case Nil
  show ?case by simp
next
  case (Cons x xs)
  have "\<forall>t. \<exists>t'. f x t = Inr t'" using Cons.prems by (meson list.set_intros(1))
  then obtain t where t: "f x s = Inr t" by blast
  have "\<forall>y\<in>set xs. \<forall>t. \<exists>t'. f y t = Inr t'" using Cons.prems by (meson list.set_intros(2))
  then obtain s' where "forEachE f xs t = Inr s'" using Cons.IH by blast
  then show ?case by (simp add: t)
qed

lemma push_cause_returns: "string_or_falsy c \<Longrightarrow> \<exists>cs'. push_cause c cs = Inr cs'"
  by (cases c) (simp_all add: push_cause_def string_or_falsy_def)

lemma tally_patient_returns:
  assumes "\<forall>c\<in>set (mortality_causes p). string_or_falsy c"
  shows "\<exists>t'. tally_patient p t = Inr t'"
proof (cases "mortality_status p = JStr ''deceased''")
  case False
  then show ?thesis by (simp add: tally_patient_def)
next
  case True
  have "\<forall>c\<in>set (mortality_causes p). \<forall>cs. \<exists>cs'. push_cause c cs = Inr cs'"
    using assms push_cause_returns by blast
  then have "\<And>cs. \<exists>cs'. forEachE push_cause (mortality_causes p) cs = Inr cs'"
    by (rule forEachE_returns)
  then show ?thesis
    using True by (simp add: tally_patient_def Let_def bindE_Inr_iff)
qed

lemma count_concern_returns:
  "string_or_falsy c \<Longrightarrow> \<exists>m'. count_concern env c m = Inr m'"
  by (cases c) (simp_all add: count_concern_def string_or_falsy_def)

lemma count_match_returns:
  assumes "x \<noteq> JNull" and "x \<noteq> JUndefined" and "string_or_falsy (opt_prop x field)"
  shows "\<exists>m'. count_match env field x m = Inr m'"
  using assms(3)
  by (cases "opt_prop x field")
     (simp_all add: count_match_def get_prop_opt [OF assms(1,2)] string_or_falsy_def)

lemma generate_returns:
  assumes mc: "\<forall>p\<in>set ps. \<forall>c\<in>set (mortality_causes p). string_or_falsy c"
    and pc: "\<forall>p\<in>set ps. \<forall>c\<in>set (primary_concerns p). string_or_falsy c"
    and ms: "\<forall>x\<in>set ms. x \<noteq> JNull \<and> x \<noteq> JUndefined
               \<and> string_or_falsy (opt_prop x ''comorbidity_name'')
               \<and> string_or_falsy (opt_prop x ''column_name'')"
  shows "\<exists>a. generateEnhancedPatientAnalytics env ps stats (JArr ms) existing = Inr a"
proof (cases "ps = []")
  case True
  then show ?thesis by (simp add: generateEnhancedPatientAnalytics_def)
next
  case False
  have "\<forall>p\<in>set ps. \<forall>t. \<exists>t'. tally_patient p t = Inr t'"
    using mc tally_patient_returns by blast
  then have "\<exists>tally. forEachE tally_patient ps
      \<lparr> allMortalityCauses = [], failedSurgeryDeaths = 0, successSurgeryDeaths = 0 \<rparr> = Inr tally"
    by (rule forEachE_returns)
  then obtain tally where t: "forEachE tally_patient ps
      \<lparr> allMortalityCauses = [], failedSurgeryDeaths = 0, successSurgeryDeaths = 0 \<rparr> = Inr tally"
    by blast
  have "\<forall>p\<in>set ps. \<forall>m. \<exists>m'. forEachE (count_concern env) (primary_concerns p) m = Inr m'"
  proof (intro ballI allI)
    fix p m
    assume "p \<in> set ps"
    then have "\<forall>c\<in>set (primary_concerns p). \<forall>m. \<exists>m'. count_concern env c m = Inr m'"
      using pc count_concern_returns by blast
    then show "\<exists>m'. forEachE (count_concern env) (primary_concerns p) m = Inr m'"
      by (rule forEachE_returns)
  qed
  then have "\<exists>fromConcerns.
    forEachE (\<lambda>patient. forEachE (count_concern env) (primary_concerns patient)) ps [] = Inr fromConcerns"
    by (rule forEachE_returns)
  then obtain fromConcerns where c1:
    "forEachE (\<lambda>patient. forEachE (count_concern env) (primary_concerns patient)) ps [] = Inr fromConcerns"
    by blast
  have m1: "\<And>field m. field = ''comorbidity_name'' \<or> field = ''column_name'' \<Longrightarrow>
      \<exists>m'. forEachE (count_match env field) ms m = Inr m'"
  proof -
    fix field :: string and m
    assume f: "field = ''comorbidity_name'' \<or> field = ''column_name''"
    have "\<forall>x\<in>set ms. \<forall>m. \<exists>m'. count_match env field x m = Inr m'"
      using ms f count_match_returns by blast
    then show "\<exists>m'. forEachE (count_match env field) ms m = Inr m'"
      by (rule forEachE_returns)
  qed
  have "\<exists>counts. comorbidity_fallback env (JArr ms) fromConcerns = Inr counts"
    using m1 [of "''comorbidity_name''" fromConcerns]
    by (simp add: comorbidity_fallback_def length_positive_def js_forEach_def)
  then obtain counts where c2: "comorbidity_fallback env (JArr ms) fromConcerns = Inr counts"
    by blast
  obtain cols where k: "js_forEach (count_match env ''column_name'') (JArr ms) [] = Inr cols"
    using m1 [of "''column_name''" "[]"] by (auto simp: js_forEach_def)
  show ?thesis
    using False t c1 c2 k
    by (simp add: generateEnhancedPatientAnalytics_def default_arg_def)
qed

text \<open>
  Claim C9. An empty patient list is not an error: for every other argument the
  aggregator returns a summary in which the number of patients, every rate, every count
  and the average are 0 and every frequency map is empty.
\<close>

theorem empty_patient_list:
  "\<exists>a. generateEnhancedPatientAnalytics env [] stats matches existing = Inr a
       \<and> total_patients a = 0
       \<and> avg_comorbidities_per_patient a = JNum 0
       \<and> success_rate (surgery_outcomes a) = 0
       \<and> mortality_rate (mortality_analytics a) = 0
       \<and> death_rate_in_failed (mortality_analytics a) = 0
       \<and> death_rate_in_successful (mortality_analytics a) = 0
       \<and> most_common_comorbidities a = []
       \<and> most_effective_columns a = []
       \<and> mortality_cause_freq (mortality_analytics a) = []
       \<and> high_risk_comorbidities (mortality_analytics a) = []
       \<and> failure_cause_freq a = []
       \<and> successful (surgery_outcomes a) = 0
       \<and> failed (surgery_outcomes a) = 0
       \<and> unknown (surgery_outcomes a) = 0
       \<and> deceased_patients (mortality_analytics a) = 0
       \<and> alive_patients (mortality_analytics a) = 0
       \<and> failed_surgery_deaths (mortality_analytics a) = 0
       \<and> success_surgery_deaths (mortality_analytics a) = 0
       \<and> risk_distribution (mortality_analytics a) = \<lparr> Critical = 0, High = 0, Medium = 0, Low = 0 \<rparr>"
  by (simp add: generateEnhancedPatientAnalytics_def empty_analytics_def)

text \<open>Neither the aggregator nor the body of the transformation depends on the analytics the backend computed.\<close>

lemma generate_ignores_existing:
  "generateEnhancedPatientAnalytics env ps st m ea1 = generateEnhancedPatientAnalytics env ps st m ea2"
  by (simp add: generateEnhancedPatientAnalytics_def)

lemma transform_body_ignores_existing:
  assumes H: "\<forall>k. k \<noteq> ''patient_analytics'' \<longrightarrow> get_prop d1 k = get_prop d2 k"
  shows "transform_body env d1 format = transform_body env d2 format"
proof (cases "d1 = JNull \<or> d1 = JUndefined")
  case True
  then have "get_prop d1 ''stats'' = Inl TypeError" by auto
  moreover have "get_prop d2 ''stats'' = get_prop d1 ''stats''" using H by simp
  ultimately show ?thesis by (simp add: transform_body_def)
next
  case False
  then have n1: "d1 \<noteq> JNull" "d1 \<noteq> JUndefined" by auto
  have s: "get_prop d2 ''stats'' = get_prop d1 ''stats''" using H by simp
  have n2: "d2 \<noteq> JNull" "d2 \<noteq> JUndefined"
    using s get_prop_opt [OF n1, of "''stats''"] by auto
  have eqs: "get_prop d2 ''matches'' = get_prop d1 ''matches''"
    "get_prop d2 ''summary'' = get_prop d1 ''summary''"
    "get_prop d2 ''patient_summaries'' = get_prop d1 ''patient_summaries''"
    using H by simp_all
  have pa: "get_prop d1 ''patient_analytics'' = Inr (opt_prop d1 ''patient_analytics'')"
    "get_prop d2 ''patient_analytics'' = Inr (opt_prop d2 ''patient_analytics'')"
    using get_prop_opt [OF n1] get_prop_opt [OF n2] by simp_all
  have gen: "\<And>ps st m. generateEnhancedPatientAnalytics env ps st m (opt_prop d2 ''patient_analytics'')
      = generateEnhancedPatientAnalytics env ps st m (opt_prop d1 ''patient_analytics'')"
    by (rule generate_ignores_existing)
  show ?thesis
    unfolding transform_body_def s eqs pa bindE_Inr gen ..
qed

text \<open>
  The analytics the transformation returns are those the aggregator computes from the
  normalized records, the rebuilt statistics and the matches, whatever the backend sent as
  \<^verbatim>\<open>patient_analytics\<close>.
\<close>

lemma js_or_twice: "js_or (js_or x (JArr [])) (JArr []) = js_or x (JArr [])"
  by (simp add: js_or_def)

lemma transform_body_analytics:
  assumes "transform_body env d format = Inr t" and "td_patient_analytics t = Some a"
  shows "generateEnhancedPatientAnalytics env
           (case td_patient_summaries t of Some ps \<Rightarrow> ps | None \<Rightarrow> [])
           (td_stats t) (td_matches t) ea = Inr a"
proof -
  from assms(1) obtain st ms su raw summaries analytics where
    g: "(if format = ''enhanced'' \<or> truthy raw
            then bindE (get_prop d ''patient_analytics'') (\<lambda>existing.
                   bindE (generateEnhancedPatientAnalytics env
                            (case summaries of Some ps \<Rightarrow> ps | None \<Rightarrow> [])
                            \<lparr> rows_processed = js_or (opt_prop st ''rows_processed'') (JNum 0),
                   matches_found = js_or (opt_prop st ''matches_found'') (JNum 0),
                   processing_time = js_or (opt_prop st ''processing_time'') (JNum 0),
                   successful_surgeries = js_or (opt_prop st ''successful_surgeries'') (JNum 0),
                   failed_surgeries = js_or (opt_prop st ''failed_surgeries'') (JNum 0),
                   output_file_path = js_or (opt_prop st ''output_file_path'') JNull \<rparr>
                            (js_or (js_or ms (JArr [])) (JArr [])) existing)
                     (\<lambda>a. Inr (Some a)))
            else Inr None) = Inr analytics"
    and t: "t = \<lparr> td_stats = \<lparr> rows_processed = js_or (opt_prop st ''rows_processed'') (JNum 0),
                   matches_found = js_or (opt_prop st ''matches_found'') (JNum 0),
                   processing_time = js_or (opt_prop st ''processing_time'') (JNum 0),
                   successful_surgeries = js_or (opt_prop st ''successful_surgeries'') (JNum 0),
                   failed_surgeries = js_or (opt_prop st ''failed_surgeries'') (JNum 0),
                   output_file_path = js_or (opt_prop st ''output_file_path'') JNull \<rparr>,
              td_matches = js_or ms (JArr []),
              td_summary = \<lparr> matches_by_comorbidity = js_or (opt_prop su ''matches_by_comorbidity'') (JObj []),
                     matches_by_column = js_or (opt_prop su ''matches_by_column'') (JObj []) \<rparr>,
              td_patient_summaries = summaries, td_patient_analytics = analytics \<rparr>"
    unfolding transform_body_def Let_def bindE_Inr_iff by blast
  have an: "analytics = Some a" using assms(2) t by simp
  from g obtain existing where
    "generateEnhancedPatientAnalytics env
                            (case summaries of Some ps \<Rightarrow> ps | None \<Rightarrow> [])
                            (td_stats t) (td_matches t) existing = Inr a"
    unfolding an js_or_twice t
    by (auto simp: bindE_Inr_iff split: if_splits)
  then show ?thesis
    using generate_ignores_existing [of env _ _ _ existing ea] t by simp
qed

text \<open>
  Claim C10, as amended. The aggregator's result does not depend on its argument
  \<open>existingAnalytics\<close>. Two answers of the backend that differ only in
  \<^verbatim>\<open>patient_analytics\<close> go through the body of the transformation alike, and whenever the
  transformation of one returns a transformed result, that of the other returns the same;
  the analytics of a transformed result are recomputed from its patient records. When an
  exception is thrown inside the transformation, the catch block returns the backend's
  answer as it came, its \<^verbatim>\<open>patient_analytics\<close> included.
\<close>

theorem existing_analytics_ignored:
  "generateEnhancedPatientAnalytics env ps st m ea1 = generateEnhancedPatientAnalytics env ps st m ea2
   \<and> ((\<forall>k. k \<noteq> ''patient_analytics'' \<longrightarrow> get_prop d1 k = get_prop d2 k)
        \<longrightarrow> transform_body env d1 format = transform_body env d2 format
          \<and> (\<forall>t. transformJobResultsForFrontend env d1 format = Inr t
                \<longrightarrow> transformJobResultsForFrontend env d2 format = Inr t))
   \<and> (\<forall>t a. transformJobResultsForFrontend env d1 format = Inr t \<and> td_patient_analytics t = Some a
        \<longrightarrow> generateEnhancedPatientAnalytics env
              (case td_patient_summaries t of Some ps \<Rightarrow> ps | None \<Rightarrow> [])
              (td_stats t) (td_matches t) ea1 = Inr a)
   \<and> (\<forall>e. transform_body env d1 format = Inl e
        \<longrightarrow> transformJobResultsForFrontend env d1 format = Inl d1)"
proof (intro conjI)
  show "generateEnhancedPatientAnalytics env ps st m ea1 = generateEnhancedPatientAnalytics env ps st m ea2"
    by (rule generate_ignores_existing)
  show "(\<forall>k. k \<noteq> ''patient_analytics'' \<longrightarrow> get_prop d1 k = get_prop d2 k)
        \<longrightarrow> transform_body env d1 format = transform_body env d2 format
          \<and> (\<forall>t. transformJobResultsForFrontend env d1 format = Inr t
                \<longrightarrow> transformJobResultsForFrontend env d2 format = Inr t)"
    using transform_body_ignores_existing [of d1 d2 env format]
    by (auto simp: transformJobResultsForFrontend_def split: sum.splits)
  show "\<forall>t a. transformJobResultsForFrontend env d1 format = Inr t \<and> td_patient_analytics t = Some a
        \<longrightarrow> generateEnhancedPatientAnalytics env
              (case td_patient_summaries t of Some ps \<Rightarrow> ps | None \<Rightarrow> [])
              (td_stats t) (td_matches t) ea1 = Inr a"
  proof (intro allI impI)
    fix t a
    assume h: "transformJobResultsForFrontend env d1 format = Inr t \<and> td_patient_analytics t = Some a"
    then have "transform_body env d1 format = Inr t"
      by (auto simp: transformJobResultsForFrontend_def split: sum.splits)
    then show "generateEnhancedPatientAnalytics env
              (case td_patient_summaries t of Some ps \<Rightarrow> ps | None \<Rightarrow> [])
              (td_stats t) (td_matches t) ea1 = Inr a"
      using h by (intro transform_body_analytics) simp_all
  qed
  show "\<forall>e. transform_body env d1 format = Inl e
        \<longrightarrow> transformJobResultsForFrontend env d1 format = Inl d1"
    by (simp add: transformJobResultsForFrontend_def)
qed

theorem existing_analytics_ignored_witness:
  "generateEnhancedPatientAnalytics sample_env [blank_patient] blank_stats (JArr []) (JStr ''x'')
     = generateEnhancedPatientAnalytics sample_env [blank_patient] blank_stats (JArr []) JNull
   \<and> transform_body sample_env
        (JObj [(''patient_summaries'', JArr [JObj []]), (''patient_analytics'', JStr ''x'')]) ''enhanced''
     = transform_body sample_env (JObj [(''patient_summaries'', JArr [JObj []])]) ''enhanced''
   \<and> transformJobResultsForFrontend sample_env (failing_answer JNull) ''enhanced''
     = Inl (failing_answer JNull)"
proof -
  have h: "\<forall>k. k \<noteq> ''patient_analytics'' \<longrightarrow>
      get_prop (JObj [(''patient_summaries'', JArr [JObj []]), (''patient_analytics'', JStr ''x'')]) k
      = get_prop (JObj [(''patient_summaries'', JArr [JObj []])]) k"
    by simp
  have f: "transform_body sample_env (failing_answer JNull) ''enhanced'' = Inl TypeError"
    by code_simp
  have 1: "generateEnhancedPatientAnalytics sample_env [blank_patient] blank_stats (JArr []) (JStr ''x'')
     = generateEnhancedPatientAnalytics sample_env [blank_patient] blank_stats (JArr []) JNull
   \<and> transform_body sample_env
        (JObj [(''patient_summaries'', JArr [JObj []]), (''patient_analytics'', JStr ''x'')]) ''enhanced''
     = transform_body sample_env (JObj [(''patient_summaries'', JArr [JObj []])]) ''enhanced''"
    using existing_analytics_ignored [of sample_env "[blank_patient]" blank_stats "JArr []" "JStr ''x''" JNull
        "JObj [(''patient_summaries'', JArr [JObj []]), (''patient_analytics'', JStr ''x'')]"
        "JObj [(''patient_summaries'', JArr [JObj []])]" "''enhanced''"] h
    by blast
  have 2: "transformJobResultsForFrontend sample_env (failing_answer JNull) ''enhanced''
     = Inl (failing_answer JNull)"
    using existing_analytics_ignored [of sample_env "[]" blank_stats JNull JNull JNull
        "failing_answer JNull" JNull "''enhanced''"] f
    by blast
  from 1 2 show ?thesis by blast
qed

text \<open>
  The claim as stated, that the precomputed analytics are always discarded, fails on the
  catch path: a patient whose cause of death is a number makes \<^verbatim>\<open>trim\<close> throw, and two
  answers that differ only in \<^verbatim>\<open>patient_analytics\<close> are returned unchanged, each with
  its own.
\<close>

theorem backend_analytics_returned_on_failure:
  "transformJobResultsForFrontend sample_env (failing_answer (JObj [(''total_patients'', JNum 7)])) ''enhanced''
     = Inl (failing_answer (JObj [(''total_patients'', JNum 7)]))
   \<and> transformJobResultsForFrontend sample_env (failing_answer (JObj [(''total_patients'', JNum 9)])) ''enhanced''
     = Inl (failing_answer (JObj [(''total_patients'', JNum 9)]))
   \<and> failing_answer (JObj [(''total_patients'', JNum 7)]) \<noteq> failing_answer (JObj [(''total_patients'', JNum 9)])
   \<and> opt_prop (failing_answer (JObj [(''total_patients'', JNum 7)])) ''patient_analytics''
     = JObj [(''total_patients'', JNum 7)]"
  by code_simp

section \<open>Risk levels\<close>

lemma risk_step_counts:
  "Critical (risk_step env rd p) = Critical rd + (if patient_risk env p = CriticalRisk then 1 else 0)"
  "High (risk_step env rd p) = High rd + (if patient_risk env p = HighRisk then 1 else 0)"
  "Medium (risk_step env rd p) = Medium rd + (if patient_risk env p = MediumRisk then 1 else 0)"
  "Low (risk_step env rd p) = Low rd + (if patient_risk env p = LowRisk then 1 else 0)"
  by (simp_all add: risk_step_def patient_risk_def risk_level_of_def comorbidities_at_least_def Let_def)

lemma foldl_risk_step_counts:
  "Critical (foldl (risk_step env) rd ps) = Critical rd + count_risk env CriticalRisk ps
   \<and> High (foldl (risk_step env) rd ps) = High rd + count_risk env HighRisk ps
   \<and> Medium (foldl (risk_step env) rd ps) = Medium rd + count_risk env MediumRisk ps
   \<and> Low (foldl (risk_step env) rd ps) = Low rd + count_risk env LowRisk ps"
proof (induction ps arbitrary: rd)
  case Nil
  show ?case by (simp add: count_risk_def)
next
  case (Cons p ps)
  show ?case
    using Cons.IH [of "risk_step env rd p"]
    by (simp add: risk_step_counts count_risk_def)
qed

lemma count_risk_total:
  "count_risk env CriticalRisk ps + count_risk env HighRisk ps
     + count_risk env MediumRisk ps + count_risk env LowRisk ps = length ps"
proof (induction ps)
  case Nil
  show ?case by (simp add: count_risk_def)
next
  case (Cons p ps)
  then show ?case by (cases "patient_risk env p") (simp_all add: count_risk_def)
qed

lemma comorbidities_at_least_number:
  "total_comorbidities p = JNum n \<Longrightarrow> comorbidities_at_least env p k = (k \<le> n)"
  by (simp add: comorbidities_at_least_def js_or_def js_ge_def)

text \<open>
  Claim C3. Each bucket of \<^verbatim>\<open>risk_distribution\<close> counts the patients whose level, by the
  specification's first-match-wins reading, is that bucket; a patient has one level, so the
  four counts sum to the number of patients; and the single patient with a failed surgery,
  deceased, with three comorbidities gives Critical 1 and 0 elsewhere. For a patient whose
  \<^verbatim>\<open>total_comorbidities\<close> is a number \<open>n\<close>, "at least \<open>k\<close> comorbidities" is \<open>k \<le> n\<close>.
\<close>

theorem risk_distribution_buckets:
  assumes "generateEnhancedPatientAnalytics env ps stats matches existing = Inr a"
    and "rd = risk_distribution (mortality_analytics a)"
  shows "Critical rd = count_risk env CriticalRisk ps
       \<and> High rd = count_risk env HighRisk ps
       \<and> Medium rd = count_risk env MediumRisk ps
       \<and> Low rd = count_risk env LowRisk ps
       \<and> Critical rd + High rd + Medium rd + Low rd = total_patients a
       \<and> (\<forall>p. ps = [p] \<and> surgery_outcome p = JStr ''failure''
               \<and> mortality_status p = JStr ''deceased'' \<and> total_comorbidities p = JNum 3
             \<longrightarrow> rd = \<lparr> Critical = 1, High = 0, Medium = 0, Low = 0 \<rparr>)
       \<and> (\<forall>p n k. total_comorbidities p = JNum n \<longrightarrow> comorbidities_at_least env p k = (k \<le> n))"
proof -
  have rd: "rd = foldl (risk_step env) \<lparr> Critical = 0, High = 0, Medium = 0, Low = 0 \<rparr> ps"
    using generate_Inr_fields(3) [OF assms(1)] assms(2) by simp
  have tp: "total_patients a = length ps"
    by (rule generate_Inr_fields(1) [OF assms(1)])
  have c: "Critical rd = count_risk env CriticalRisk ps" "High rd = count_risk env HighRisk ps"
    "Medium rd = count_risk env MediumRisk ps" "Low rd = count_risk env LowRisk ps"
    using foldl_risk_step_counts [of env "\<lparr> Critical = 0, High = 0, Medium = 0, Low = 0 \<rparr>" ps]
    unfolding rd by simp_all
  have s: "Critical rd + High rd + Medium rd + Low rd = total_patients a"
    unfolding c tp by (rule count_risk_total)
  have e: "rd = \<lparr> Critical = 1, High = 0, Medium = 0, Low = 0 \<rparr>"
    if "ps = [p]" "surgery_outcome p = JStr ''failure''" "mortality_status p = JStr ''deceased''" for p
    using that unfolding rd by (simp add: risk_step_def Let_def)
  show ?thesis
    using c s e comorbidities_at_least_number by blast
qed

theorem risk_distribution_buckets_witness:
  "\<exists>a. generateEnhancedPatientAnalytics sample_env [a_patient ''failure'' ''deceased'' 3 []]
          blank_stats (JArr []) JNull = Inr a
      \<and> risk_distribution (mortality_analytics a) = \<lparr> Critical = 1, High = 0, Medium = 0, Low = 0 \<rparr>
      \<and> total_patients a = 1"
proof -
  have h: "generateEnhancedPatientAnalytics sample_env [a_patient ''failure'' ''deceased'' 3 []]
             blank_stats (JArr []) JNull
           = Inr (build_analytics sample_env [a_patient ''failure'' ''deceased'' 3 []]
               \<lparr> allMortalityCauses = [], failedSurgeryDeaths = 1, successSurgeryDeaths = 0 \<rparr> [] [])"
    by (simp add: generateEnhancedPatientAnalytics_def default_arg_def tally_patient_def
        a_patient_def blank_patient_def comorbidity_fallback_def Object_keys_def
        length_positive_def js_forEach_def)
  show ?thesis
    using risk_distribution_buckets [OF h refl] h
    by (simp add: a_patient_def blank_patient_def build_analytics_fields)
qed

section \<open>Surgery outcomes\<close>

text \<open>
  Claim C4, as amended. The success rate is 0 when there is no patient, and otherwise the
  double that \<^verbatim>\<open>(n / totalPatients) * 100\<close> evaluates to, where \<open>n\<close> is the number of
  patients whose outcome is \<open>success\<close>: the quotient rounded, times 100, rounded again. It
  differs from the exact percentage by at most the fraction \<open>2\<^sup>-\<^sup>5\<^sup>1\<close> of it; and ten patients
  with six successes, three failures and one unknown outcome have the rate 60 exactly.
\<close>

theorem success_rate_formula:
  assumes "generateEnhancedPatientAnalytics env ps stats matches existing = Inr a"
  shows "total_patients a = length ps
       \<and> success_rate (surgery_outcomes a) =
           (if total_patients a = 0 then 0
            else to_double (to_double (of_nat (count_outcome ''success'' ps)
                                         / of_nat (total_patients a)) * 100))
       \<and> (total_patients a \<noteq> 0 \<longrightarrow>
            \<bar>success_rate (surgery_outcomes a)
               - of_nat (count_outcome ''success'' ps) / of_nat (total_patients a) * 100\<bar>
            \<le> of_nat (count_outcome ''success'' ps) / of_nat (total_patients a) * 100 / 2 ^ 51)
       \<and> (length ps = 10 \<and> count_outcome ''success'' ps = 6 \<and> count_outcome ''failure'' ps = 3
            \<and> count_outcome ''unknown'' ps = 1
          \<longrightarrow> success_rate (surgery_outcomes a) = 60)"
proof -
  have tp: "total_patients a = length ps"
    by (rule generate_Inr_fields(1) [OF assms])
  have so: "surgery_outcomes a = surgeryOutcomes ps"
    by (rule generate_Inr_fields(2) [OF assms])
  have r: "success_rate (surgery_outcomes a) =
           (if total_patients a = 0 then 0
            else js_percent (count_outcome ''success'' ps) (total_patients a))"
    unfolding so tp by (simp add: surgeryOutcomes_def count_outcome_def Let_def)
  have e: "\<bar>success_rate (surgery_outcomes a)
               - of_nat (count_outcome ''success'' ps) / of_nat (total_patients a) * 100\<bar>
            \<le> of_nat (count_outcome ''success'' ps) / of_nat (total_patients a) * 100 / 2 ^ 51"
    if "total_patients a \<noteq> 0"
    using that js_percent_error [of "count_outcome ''success'' ps" "total_patients a"]
    by (simp add: r)
  have s: "success_rate (surgery_outcomes a) = 60"
    if "length ps = 10" "count_outcome ''success'' ps = 6"
    using that by (simp add: r tp js_percent_6_10)
  show ?thesis
    using tp r e s unfolding js_percent_def by blast
qed

lemma forEachE_tally_alive:
  "\<forall>p\<in>set ps. mortality_status p \<noteq> JStr ''deceased'' \<Longrightarrow> forEachE tally_patient ps t = Inr t"
  by (induction ps) (simp_all add: tally_patient_def)

lemma forEachE_no_concerns:
  "\<forall>p\<in>set ps. primary_concerns p = [] \<Longrightarrow>
   forEachE (\<lambda>patient. forEachE (count_concern env) (primary_concerns patient)) ps c = Inr c"
  by (induction ps) simp_all

theorem success_rate_formula_witness:
  "\<exists>a. generateEnhancedPatientAnalytics sample_env ten_patients blank_stats (JArr []) JNull = Inr a
      \<and> total_patients a = 10 \<and> success_rate (surgery_outcomes a) = 60"
proof -
  have al: "\<forall>p\<in>set ten_patients. mortality_status p \<noteq> JStr ''deceased''"
    by (simp add: ten_patients_def a_patient_def blank_patient_def)
  have nc: "\<forall>p\<in>set ten_patients. primary_concerns p = []"
    by (simp add: ten_patients_def a_patient_def blank_patient_def)
  have ne: "length ten_patients = 10"
    by (simp add: ten_patients_def)
  have h: "generateEnhancedPatientAnalytics sample_env ten_patients blank_stats (JArr []) JNull
           = Inr (build_analytics sample_env ten_patients
               \<lparr> allMortalityCauses = [], failedSurgeryDeaths = 0, successSurgeryDeaths = 0 \<rparr> [] [])"
    by (simp add: generateEnhancedPatientAnalytics_def default_arg_def ne
        forEachE_tally_alive [OF al] forEachE_no_concerns [OF nc]
        comorbidity_fallback_def Object_keys_def length_positive_def js_forEach_def)
  have c: "count_outcome ''success'' ten_patients = 6" "count_outcome ''failure'' ten_patients = 3"
    "count_outcome ''unknown'' ten_patients = 1"
    by (simp_all add: count_outcome_def ten_patients_def a_patient_def blank_patient_def)
  have 1: "total_patients (build_analytics sample_env ten_patients
               \<lparr> allMortalityCauses = [], failedSurgeryDeaths = 0, successSurgeryDeaths = 0 \<rparr> [] []) = 10"
    by (simp add: build_analytics_fields ne)
  have 2: "success_rate (surgery_outcomes (build_analytics sample_env ten_patients
               \<lparr> allMortalityCauses = [], failedSurgeryDeaths = 0, successSurgeryDeaths = 0 \<rparr> [] [])) = 60"
    using success_rate_formula [OF h] ne c by blast
  show ?thesis
    using h 1 2 by blast
qed

text \<open>
  The claim as the specification states it, that the rate equals the exact percentage,
  fails: of twenty patients with eleven successes, 55 percent succeeded, and the code
  returns the next double above 55.
\<close>

lemma twenty_patients_case:
  "(case generateEnhancedPatientAnalytics sample_env twenty_patients blank_stats (JArr []) JNull of
      Inl e \<Rightarrow> False
    | Inr a \<Rightarrow> total_patients a = 20
          \<and> count_outcome ''success'' twenty_patients = 11
          \<and> success_rate (surgery_outcomes a) = 55 + 1 / 2 ^ 47)"
  by code_simp

theorem success_rate_rounded:
  "\<exists>a. generateEnhancedPatientAnalytics sample_env twenty_patients blank_stats (JArr []) JNull = Inr a
      \<and> total_patients a = 20
      \<and> count_outcome ''success'' twenty_patients = 11
      \<and> success_rate (surgery_outcomes a) = 55 + 1 / 2 ^ 47
      \<and> success_rate (surgery_outcomes a) \<noteq> 11 / 20 * 100"
  using twenty_patients_case by (auto split: sum.splits)

text \<open>
  The three outcome counts and the patients with any other truthy outcome together are all
  the patients.
\<close>

lemma outcome_counts_partition:
  "successful (surgeryOutcomes ps) + failed (surgeryOutcomes ps) + unknown (surgeryOutcomes ps)
     + length (filter (\<lambda>p. truthy (surgery_outcome p)
                 \<and> surgery_outcome p \<notin> {JStr ''success'', JStr ''failure'', JStr ''unknown''}) ps)
   = length ps"
  by (induction ps) (auto simp: surgeryOutcomes_def Let_def)

text \<open>
  Claim C2 states that the three outcome counts sum to the number of patients. The code
  counts a patient whose outcome is neither \<open>success\<close>, \<open>failure\<close>, \<open>unknown\<close> nor falsy
  in none of them: for the backend answer with the one patient of outcome \<open>partial\<close>, the
  transformation returns one patient and the counts 0, 0 and 0.
\<close>

theorem unrecognised_outcome_uncounted:
  "\<exists>t a. transformJobResultsForFrontend env
            (JObj [(''patient_summaries'', JArr [JObj [(''surgery_outcome'', JStr ''partial'')]])]) format
          = Inr t
        \<and> td_patient_analytics t = Some a
        \<and> total_patients a = 1
        \<and> successful (surgery_outcomes a) + failed (surgery_outcomes a) + unknown (surgery_outcomes a) = 0"
proof -
  let ?p = "blank_patient\<lparr>surgery_outcome := JStr ''partial''\<rparr>"
  have cb: "patient_callback env (JObj [(''surgery_outcome'', JStr ''partial'')]) = Inr ?p"
    by (simp add: patient_callback_def safeParseJSONArray_def opt_prop_def js_or_def
        surgeryOutcome_def mortalityStatus_def blank_patient_def)
  have g: "\<And>st ea. generateEnhancedPatientAnalytics env [?p] st (JArr []) ea
           = Inr (build_analytics env [?p]
               \<lparr> allMortalityCauses = [], failedSurgeryDeaths = 0, successSurgeryDeaths = 0 \<rparr> [] [])"
    by (simp add: generateEnhancedPatientAnalytics_def default_arg_def tally_patient_def
        blank_patient_def comorbidity_fallback_def Object_keys_def
        length_positive_def js_forEach_def)
  have t: "transform_body env
            (JObj [(''patient_summaries'', JArr [JObj [(''surgery_outcome'', JStr ''partial'')]])]) format
          = Inr \<lparr> td_stats = blank_stats, td_matches = JArr [],
                  td_summary = \<lparr> matches_by_comorbidity = JObj [], matches_by_column = JObj [] \<rparr>,
                  td_patient_summaries = Some [?p],
                  td_patient_analytics = Some (build_analytics env [?p]
               \<lparr> allMortalityCauses = [], failedSurgeryDeaths = 0, successSurgeryDeaths = 0 \<rparr> [] []) \<rparr>"
    by (simp add: transform_body_def opt_prop_def js_or_def cb g blank_stats_def Let_def)
  show ?thesis
    unfolding transformJobResultsForFrontend_def t
    by (simp add: build_analytics_fields surgeryOutcomes_def blank_patient_def)
qed

section \<open>Keys of the frequency maps\<close>

lemma obj_put_keys: "set (Object_keys (obj_put m k v)) = insert k (set (Object_keys m))"
proof (induction m)
  case Nil
  show ?case by (simp add: Object_keys_def)
next
  case (Cons kv m)
  obtain k' v' where kv: "kv = (k', v')" by (cases kv)
  show ?case
    using Cons.IH by (cases "k' = k") (simp_all add: kv Object_keys_def insert_commute)
qed


lemma obj_set_keys:
  "set (Object_keys (obj_set m k v)) =
     (if k = ''__proto__'' then set (Object_keys m) else insert k (set (Object_keys m)))"
  by (simp add: obj_set_def obj_put_keys)


lemma bump_keys_subset: "set (Object_keys (bump env m k)) \<subseteq> insert k (set (Object_keys m))"
  by (auto simp: bump_def obj_set_keys)


lemma foldl_bump_keys_subset:
  "set (Object_keys (foldl (bump env) m ks)) \<subseteq> set ks \<union> set (Object_keys m)"
proof (induction ks arbitrary: m)
  case Nil
  show ?case by simp
next
  case (Cons k ks)
  have 1: "set (Object_keys (foldl (bump env) (bump env m k) ks))
          \<subseteq> set ks \<union> set (Object_keys (bump env m k))"
    by (rule Cons.IH)
  have 2: "set (Object_keys (bump env m k)) \<subseteq> insert k (set (Object_keys m))"
    by (rule bump_keys_subset)
  from 1 2 show ?case
    unfolding foldl_Cons list.simps(15) by blast
qed

lemma forEachE_invariant_all:
  "forEachE f xs s = Inr s' \<Longrightarrow> I s \<Longrightarrow>
   (\<forall>x\<in>set xs. \<forall>t t'. I t \<longrightarrow> f x t = Inr t' \<longrightarrow> I t') \<Longrightarrow> I s'"
proof (induction xs arbitrary: s)
  case Nil
  show ?case using Nil.prems(1,2) by simp
next
  case (Cons x xs)
  have "bindE (f x s) (forEachE f xs) = Inr s'"
    using Cons.prems(1) by simp
  then obtain t where t: "f x s = Inr t" and r: "forEachE f xs t = Inr s'"
    unfolding bindE_Inr_iff by blast
  have step: "\<forall>t t'. I t \<longrightarrow> f x t = Inr t' \<longrightarrow> I t'"
    using Cons.prems(3) by (meson list.set_intros(1))
  have rest: "\<forall>y\<in>set xs. \<forall>t t'. I t \<longrightarrow> f y t = Inr t' \<longrightarrow> I t'"
    using Cons.prems(3) by (meson list.set_intros(2))
  have "I t" using step Cons.prems(2) t by blast
  with r show ?case using rest by (rule Cons.IH)
qed

lemma forEachE_invariant:
  assumes "forEachE f xs s = Inr s'" and "I s"
    and step: "\<And>x t t'. x \<in> set xs \<Longrightarrow> I t \<Longrightarrow> f x t = Inr t' \<Longrightarrow> I t'"
  shows "I s'"
proof -
  have "\<forall>x\<in>set xs. \<forall>t t'. I t \<longrightarrow> f x t = Inr t' \<longrightarrow> I t'"
    by (intro ballI allI impI) (rule step)
  with assms(1,2) show ?thesis
    by (rule forEachE_invariant_all [where I = I and f = f])
qed

text \<open>Keys of the comorbidity counts.\<close>

lemma count_concern_keys:
  assumes "count_concern env concern m = Inr m'" and "[] \<notin> set (Object_keys m)"
  shows "[] \<notin> set (Object_keys m')"
proof -
  have "m' = m \<or> (\<exists>k. k \<noteq> [] \<and> m' = bump env m k)"
    using assms(1)
    by (auto simp: count_concern_def Let_def split: json.splits if_splits)
  then show ?thesis
    using assms(2) bump_keys_subset [of env m] by auto
qed

lemma concerns_loop_keys:
  assumes "forEachE (\<lambda>patient. forEachE (count_concern env) (primary_concerns patient)) ps m = Inr m'"
    and "[] \<notin> set (Object_keys m)"
  shows "[] \<notin> set (Object_keys m')"
proof (rule forEachE_invariant [where I = "\<lambda>t. [] \<notin> set (Object_keys t)", OF assms])
  fix p t t'
  assume "[] \<notin> set (Object_keys t)"
    and "forEachE (count_concern env) (primary_concerns p) t = Inr t'"
  then show "[] \<notin> set (Object_keys t')"
    using forEachE_invariant [where I = "\<lambda>t. [] \<notin> set (Object_keys t)" and f = "count_concern env"]
      count_concern_keys by blast
qed

lemma count_match_keys:
  assumes "count_match env field match m = Inr m'" and "[] \<notin> set (Object_keys m)"
  shows "[] \<notin> set (Object_keys m')"
proof -
  from assms(1) obtain name where
    r: "(case name of
           JStr s \<Rightarrow> if s \<noteq> [] \<and> js_trim s \<noteq> [] then Inr (bump env m s) else Inr m
         | _ \<Rightarrow> if truthy name then Inl TypeError else Inr m) = Inr m'"
    by (auto simp: count_match_def bindE_Inr_iff)
  have "m' = m \<or> (\<exists>k. k \<noteq> [] \<and> m' = bump env m k)"
    using r by (cases name) (auto split: if_splits)
  then show ?thesis
    using assms(2) bump_keys_subset [of env m] by auto
qed

lemma js_forEach_match_keys:
  assumes "js_forEach (count_match env field) xs m = Inr m'" and "[] \<notin> set (Object_keys m)"
  shows "[] \<notin> set (Object_keys m')"
proof (cases xs)
  case (JArr ys)
  with assms(1) have "forEachE (count_match env field) ys m = Inr m'"
    by (simp add: js_forEach_def)
  then show ?thesis
    by (rule forEachE_invariant [where I = "\<lambda>t. [] \<notin> set (Object_keys t)"])
       (use assms(2) count_match_keys in blast)+
qed (use assms(1) in \<open>simp_all add: js_forEach_def\<close>)

lemma comorbidity_fallback_keys:
  assumes "comorbidity_fallback env matches m = Inr m'" and "[] \<notin> set (Object_keys m)"
  shows "[] \<notin> set (Object_keys m')"
  using assms js_forEach_match_keys [of env "''comorbidity_name''" matches m m']
  by (auto simp: comorbidity_fallback_def bindE_Inr_iff split: if_splits)

text \<open>Causes of death.\<close>

lemma push_cause_nonempty:
  assumes "push_cause cause cs = Inr cs'" and "[] \<notin> set cs"
  shows "[] \<notin> set cs'"
  using assms by (auto simp: push_cause_def split: json.splits if_splits)

lemma tally_patient_nonempty:
  assumes "tally_patient p t = Inr t'" and "[] \<notin> set (allMortalityCauses t)"
  shows "[] \<notin> set (allMortalityCauses t')"
proof (cases "mortality_status p = JStr ''deceased''")
  case False
  with assms show ?thesis by (simp add: tally_patient_def)
next
  case True
  define u where "u = (if surgery_outcome p = JStr ''failure''
                   then t\<lparr>failedSurgeryDeaths := failedSurgeryDeaths t + 1\<rparr>
                   else if surgery_outcome p = JStr ''success''
                   then t\<lparr>successSurgeryDeaths := successSurgeryDeaths t + 1\<rparr>
                   else t)"
  have u: "allMortalityCauses u = allMortalityCauses t" by (simp add: u_def)
  from assms(1) True obtain cs where
    cs: "forEachE push_cause (mortality_causes p) (allMortalityCauses u) = Inr cs"
    and t': "t' = u\<lparr>allMortalityCauses := cs\<rparr>"
    by (auto simp: tally_patient_def Let_def bindE_Inr_iff u_def)
  have "[] \<notin> set cs"
    by (rule forEachE_invariant [where I = "\<lambda>c. [] \<notin> set c", OF cs])
       (use assms(2) u push_cause_nonempty in auto)
  then show ?thesis by (simp add: t')
qed

text \<open>Failure causes.\<close>


lemma count_cause_keys:
  assumes "list_all clean_key (Object_keys m)"
  shows "list_all clean_key (Object_keys (count_cause env m cause))"
proof (cases cause)
  case (JStr s)
  show ?thesis
  proof (cases "s \<noteq> [] \<and> js_trim s \<noteq> [] \<and> clean_key (js_trim s)")
    case True
    then have "count_cause env m cause = bump env m (js_trim s)"
      using JStr by (simp add: count_cause_def clean_key_def)
    then show ?thesis
      using assms True bump_keys_subset [of env m "js_trim s"] unfolding list_all_iff by auto
  next
    case False
    then have "count_cause env m cause = m"
      using JStr by (auto simp: count_cause_def clean_key_def Let_def)
    with assms show ?thesis by simp
  qed
qed (simp_all add: count_cause_def assms)

lemma foldl_count_cause_keys:
  "list_all clean_key (Object_keys m) \<Longrightarrow>
   list_all clean_key (Object_keys (foldl (count_cause env) m causes))"
proof (induction causes arbitrary: m)
  case Nil
  then show ?case by simp
next
  case (Cons c cs)
  have "list_all clean_key (Object_keys (count_cause env m c))"
    by (rule count_cause_keys [OF Cons.prems])
  then show ?case using Cons.IH by simp
qed

lemma extractFailureCauses_keys:
  "list_all clean_key (Object_keys (extractFailureCauses env ps))"
proof -
  define step :: "obj \<Rightarrow> PatientSummary \<Rightarrow> obj" where "step = (\<lambda>failureCauses patient.
              if surgery_outcome patient = JStr ''failure''
              then foldl (count_cause env) failureCauses (failure_causes patient)
              else failureCauses)"
  have st: "list_all clean_key (Object_keys (step m p))" if "list_all clean_key (Object_keys m)" for m p
    using that foldl_count_cause_keys [of m env "failure_causes p"] by (simp add: step_def)
  have "list_all clean_key (Object_keys m) \<Longrightarrow>
        list_all clean_key (Object_keys (foldl step m ps))" for m
  proof (induction ps arbitrary: m)
    case Nil
    then show ?case by simp
  next
    case (Cons p ps)
    show ?case using Cons.IH [OF st [OF Cons.prems]] by simp
  qed
  from this [of "[]"] show ?thesis
    by (simp add: extractFailureCauses_def Object_keys_def step_def)
qed

text \<open>
  Claim C5, as amended. None of the four frequency maps the aggregator returns
  (comorbidities, columns, causes of death, failure causes) has an empty key, and the map
  of the failure causes has neither the key \<open>null\<close> nor the key \<open>undefined\<close>.
\<close>

theorem frequency_map_keys:
  assumes "generateEnhancedPatientAnalytics env ps stats matches existing = Inr a"
  shows "[] \<notin> set (Object_keys (most_common_comorbidities a))
       \<and> [] \<notin> set (Object_keys (most_effective_columns a))
       \<and> [] \<notin> set (Object_keys (mortality_cause_freq (mortality_analytics a)))
       \<and> [] \<notin> set (Object_keys (failure_cause_freq a))
       \<and> ''null'' \<notin> set (Object_keys (failure_cause_freq a))
       \<and> ''undefined'' \<notin> set (Object_keys (failure_cause_freq a))"
proof -
  have fc: "failure_cause_freq a = extractFailureCauses env ps"
    by (rule generate_Inr_fields(4) [OF assms])
  have f: "[] \<notin> set (Object_keys (failure_cause_freq a))"
    "''null'' \<notin> set (Object_keys (failure_cause_freq a))"
    "''undefined'' \<notin> set (Object_keys (failure_cause_freq a))"
    using extractFailureCauses_keys [of env ps] unfolding fc list_all_iff clean_key_def by auto
  have e: "[] \<notin> set (Object_keys [])" by (simp add: Object_keys_def)
  from generate_Inr_cases [OF assms]
  have "[] \<notin> set (Object_keys (most_common_comorbidities a))
       \<and> [] \<notin> set (Object_keys (most_effective_columns a))
       \<and> [] \<notin> set (Object_keys (mortality_cause_freq (mortality_analytics a)))"
  proof
    assume "ps = [] \<and> a = empty_analytics"
    then show ?thesis by (simp add: empty_analytics_fields Object_keys_def)
  next
    assume "ps \<noteq> [] \<and> (\<exists>tally fromConcerns counts cols.
            forEachE tally_patient ps
              \<lparr> allMortalityCauses = [], failedSurgeryDeaths = 0, successSurgeryDeaths = 0 \<rparr> = Inr tally
          \<and> forEachE (\<lambda>patient. forEachE (count_concern env) (primary_concerns patient)) ps [] = Inr fromConcerns
          \<and> comorbidity_fallback env (default_arg matches (JArr [])) fromConcerns = Inr counts
          \<and> js_forEach (count_match env ''column_name'') (default_arg matches (JArr [])) [] = Inr cols
          \<and> a = build_analytics env ps tally counts cols)"
    then obtain tally fromConcerns counts cols where
      t: "forEachE tally_patient ps
              \<lparr> allMortalityCauses = [], failedSurgeryDeaths = 0, successSurgeryDeaths = 0 \<rparr> = Inr tally"
      and c1: "forEachE (\<lambda>patient. forEachE (count_concern env) (primary_concerns patient)) ps [] = Inr fromConcerns"
      and c2: "comorbidity_fallback env (default_arg matches (JArr [])) fromConcerns = Inr counts"
      and k: "js_forEach (count_match env ''column_name'') (default_arg matches (JArr [])) [] = Inr cols"
      and a: "a = build_analytics env ps tally counts cols"
      by blast
    have 1: "[] \<notin> set (Object_keys counts)"
      by (rule comorbidity_fallback_keys [OF c2]) (rule concerns_loop_keys [OF c1 e])
    have 2: "[] \<notin> set (Object_keys cols)"
      by (rule js_forEach_match_keys [OF k e])
    have "[] \<notin> set (allMortalityCauses tally)"
      by (rule forEachE_invariant [where I = "\<lambda>t. [] \<notin> set (allMortalityCauses t)", OF t])
         (simp, rule tally_patient_nonempty)
    then have 3: "[] \<notin> set (Object_keys (foldl (bump env) [] (allMortalityCauses tally)))"
      using foldl_bump_keys_subset [of env "[]" "allMortalityCauses tally"] e by auto
    show ?thesis
      unfolding a build_analytics_fields using 1 2 3 by simp
  qed
  with f show ?thesis by simp
qed

lemma wit_case:
  "(case generateEnhancedPatientAnalytics sample_env [sample_patient] blank_stats sample_matches JNull of
      Inl e \<Rightarrow> False
    | Inr a \<Rightarrow> Object_keys (failure_cause_freq a) = [''bleeding'']
          \<and> Object_keys (most_common_comorbidities a) = [''Diabetes'']
          \<and> Object_keys (most_effective_columns a) = [''notes'']
          \<and> Object_keys (mortality_cause_freq (mortality_analytics a)) = [''sepsis''])"
  by code_simp

theorem frequency_map_keys_witness:
  "\<exists>a. generateEnhancedPatientAnalytics sample_env [sample_patient] blank_stats sample_matches JNull = Inr a
      \<and> Object_keys (failure_cause_freq a) = [''bleeding'']
      \<and> [] \<notin> set (Object_keys (most_common_comorbidities a))
      \<and> [] \<notin> set (Object_keys (most_effective_columns a))
      \<and> [] \<notin> set (Object_keys (mortality_cause_freq (mortality_analytics a)))
      \<and> ''null'' \<notin> set (Object_keys (failure_cause_freq a))
      \<and> ''undefined'' \<notin> set (Object_keys (failure_cause_freq a))"
proof -
  obtain a where h: "generateEnhancedPatientAnalytics sample_env [sample_patient] blank_stats sample_matches JNull = Inr a"
    and k: "Object_keys (failure_cause_freq a) = [''bleeding'']"
    using wit_case by (auto split: sum.splits)
  show ?thesis
    using frequency_map_keys [OF h] h k by blast
qed

text \<open>
  The claim as the specification states it fails for the other three maps: the names
  \<open>null\<close> and \<open>undefined\<close> among the concerns, the columns and the causes of death
  become keys.
\<close>

lemma cex_case:
  "(case transformJobResultsForFrontend sample_env null_keys_input ''enhanced'' of
      Inl d \<Rightarrow> False
    | Inr t \<Rightarrow> (case td_patient_analytics t of
                  None \<Rightarrow> False
                | Some a \<Rightarrow> Object_keys (most_common_comorbidities a) = [''null'', ''undefined'']
                    \<and> Object_keys (most_effective_columns a) = [''null'', ''undefined'']
                    \<and> Object_keys (mortality_cause_freq (mortality_analytics a)) = [''null'', ''undefined'']))"
  by code_simp

theorem null_and_undefined_keys:
  "\<exists>t a. transformJobResultsForFrontend sample_env null_keys_input ''enhanced'' = Inr t
      \<and> td_patient_analytics t = Some a
      \<and> Object_keys (most_common_comorbidities a) = [''null'', ''undefined'']
      \<and> Object_keys (most_effective_columns a) = [''null'', ''undefined'']
      \<and> Object_keys (mortality_cause_freq (mortality_analytics a)) = [''null'', ''undefined'']"
  using cex_case by (auto split: sum.splits option.splits)

section \<open>High-risk comorbidities\<close>

lemma map_of_obj_put: "map_of (obj_put m k v) = (map_of m)(k \<mapsto> v)"
proof (induction m)
  case Nil
  show ?case by simp
next
  case (Cons kv m)
  obtain k' v' where kv: "kv = (k', v')" by (cases kv)
  show ?case
    using Cons.IH by (cases "k' = k") (auto simp: kv)
qed

lemma Object_keys_map_of: "k \<in> set (Object_keys m) \<longleftrightarrow> map_of m k \<noteq> None"
  by (simp add: Object_keys_def map_of_eq_None_iff)

lemma high_risk_step_lookup:
  "map_of (high_risk_step ps hr c) k =
     (if k = c \<and> c \<noteq> ''__proto__'' \<and> patients_with c ps \<noteq> [] \<and> subset_mortality_rate c ps > 20
      then Some (JNum (subset_mortality_rate c ps)) else map_of hr k)"
  by (simp add: high_risk_step_def Let_def patients_with_def subset_mortality_rate_def obj_set_def
      map_of_obj_put)

lemma foldl_high_risk_step_lookup:
  "map_of (foldl (high_risk_step ps) hr ks) k =
     (if k \<in> set ks \<and> k \<noteq> ''__proto__'' \<and> patients_with k ps \<noteq> [] \<and> subset_mortality_rate k ps > 20
      then Some (JNum (subset_mortality_rate k ps)) else map_of hr k)"
proof (induction ks arbitrary: hr)
  case Nil
  show ?case by simp
next
  case (Cons c ks)
  show ?case
    unfolding foldl_Cons Cons.IH high_risk_step_lookup by auto
qed

text \<open>The names the loop over the concerns counts.\<close>

lemma count_concern_mono:
  assumes "count_concern env concern m = Inr m'"
  shows "set (Object_keys m) \<subseteq> set (Object_keys m')"
proof -
  have "m' = m \<or> (\<exists>k. m' = bump env m k)"
    using assms by (auto simp: count_concern_def Let_def split: json.splits if_splits)
  then show ?thesis
    by (auto simp: bump_def obj_set_keys)
qed

lemma count_concern_string:
  assumes "count_concern env (JStr s) m = Inr m'" and "js_trim s \<noteq> []" and "js_trim s \<noteq> ''__proto__''"
  shows "js_trim s \<in> set (Object_keys m')"
proof -
  have "s \<noteq> []" using assms(2) by (auto simp: js_trim_def)
  then have "m' = bump env m (js_trim s)"
    using assms(1,2) by (simp add: count_concern_def)
  then show ?thesis
    using assms(3) by (simp add: bump_def obj_set_keys)
qed

lemma forEachE_count_concern_mono:
  "forEachE (count_concern env) cs m = Inr m' \<Longrightarrow> set (Object_keys m) \<subseteq> set (Object_keys m')"
proof (induction cs arbitrary: m)
  case Nil
  then show ?case by simp
next
  case (Cons c cs)
  from Cons.prems obtain t where t: "count_concern env c m = Inr t"
    and r: "forEachE (count_concern env) cs t = Inr m'"
    by (auto simp: bindE_Inr_iff)
  show ?case
    using count_concern_mono [OF t] Cons.IH [OF r] by blast
qed

lemma forEachE_count_concern_string:
  "forEachE (count_concern env) cs m = Inr m' \<Longrightarrow> JStr s \<in> set cs \<Longrightarrow>
   js_trim s \<noteq> [] \<Longrightarrow> js_trim s \<noteq> ''__proto__'' \<Longrightarrow> js_trim s \<in> set (Object_keys m')"
proof (induction cs arbitrary: m)
  case Nil
  then show ?case by simp
next
  case (Cons c cs)
  from Cons.prems(1) obtain t where t: "count_concern env c m = Inr t"
    and r: "forEachE (count_concern env) cs t = Inr m'"
    by (auto simp: bindE_Inr_iff)
  show ?case
  proof (cases "c = JStr s")
    case True
    have "js_trim s \<in> set (Object_keys t)"
      using count_concern_string [OF _ Cons.prems(3,4)] t True by simp
    then show ?thesis
      using forEachE_count_concern_mono [OF r] by blast
  next
    case False
    then have "JStr s \<in> set cs" using Cons.prems(2) by simp
    then show ?thesis
      by (rule Cons.IH [OF r _ Cons.prems(3,4)])
  qed
qed

lemma concerns_loop_mono:
  "forEachE (\<lambda>patient. forEachE (count_concern env) (primary_concerns patient)) ps m = Inr m' \<Longrightarrow>
   set (Object_keys m) \<subseteq> set (Object_keys m')"
proof (induction ps arbitrary: m)
  case Nil
  then show ?case by simp
next
  case (Cons p ps)
  from Cons.prems obtain t where t: "forEachE (count_concern env) (primary_concerns p) m = Inr t"
    and r: "forEachE (\<lambda>patient. forEachE (count_concern env) (primary_concerns patient)) ps t = Inr m'"
    by (auto simp: bindE_Inr_iff)
  show ?case
    using forEachE_count_concern_mono [OF t] Cons.IH [OF r] by blast
qed

lemma concerns_loop_string:
  "forEachE (\<lambda>patient. forEachE (count_concern env) (primary_concerns patient)) ps m = Inr m' \<Longrightarrow>
   p \<in> set ps \<Longrightarrow> JStr s \<in> set (primary_concerns p) \<Longrightarrow>
   js_trim s \<noteq> [] \<Longrightarrow> js_trim s \<noteq> ''__proto__'' \<Longrightarrow> js_trim s \<in> set (Object_keys m')"
proof (induction ps arbitrary: m)
  case Nil
  then show ?case by simp
next
  case (Cons q ps)
  from Cons.prems(1) obtain t where t: "forEachE (count_concern env) (primary_concerns q) m = Inr t"
    and r: "forEachE (\<lambda>patient. forEachE (count_concern env) (primary_concerns patient)) ps t = Inr m'"
    by (auto simp: bindE_Inr_iff)
  show ?case
  proof (cases "p = q")
    case True
    have "js_trim s \<in> set (Object_keys t)"
      using forEachE_count_concern_string [OF t _ Cons.prems(4,5)] Cons.prems(3) True by simp
    then show ?thesis
      using concerns_loop_mono [OF r] by blast
  next
    case False
    then have "p \<in> set ps" using Cons.prems(2) by simp
    then show ?thesis
      by (rule Cons.IH [OF r _ Cons.prems(3,4,5)])
  qed
qed

lemma comorbidity_fallback_unused:
  "comorbidity_fallback env matches m = Inr m' \<Longrightarrow> Object_keys m \<noteq> [] \<Longrightarrow> m' = m"
  by (simp add: comorbidity_fallback_def)

text \<open>
  Where a name is an element of some patient's \<^verbatim>\<open>primary_concerns\<close> as a plain string
  without surrounding white space, the aggregator lists it as high risk exactly when the
  rate the code computes over the patients holding that very string as an element exceeds
  20, with that rate as its value. Patients holding the name only in a tagged object or
  with surrounding white space are not among them.
\<close>

lemma high_risk_plain_names:
  assumes "generateEnhancedPatientAnalytics env ps stats matches existing = Inr a"
    and "p \<in> set ps" and "JStr n \<in> set (primary_concerns p)"
    and "js_trim n = n" and "n \<noteq> []" and "n \<noteq> ''__proto__''"
  shows "map_of (high_risk_comorbidities (mortality_analytics a)) n =
           (if subset_mortality_rate n ps > 20 then Some (JNum (subset_mortality_rate n ps)) else None)"
    and "n \<in> set (Object_keys (high_risk_comorbidities (mortality_analytics a)))
           \<longleftrightarrow> subset_mortality_rate n ps > 20"
proof -
  have ne: "ps \<noteq> []" using assms(2) by auto
  from generate_Inr_cases [OF assms(1)] ne obtain tally fromConcerns counts cols where
    c1: "forEachE (\<lambda>patient. forEachE (count_concern env) (primary_concerns patient)) ps [] = Inr fromConcerns"
    and c2: "comorbidity_fallback env (default_arg matches (JArr [])) fromConcerns = Inr counts"
    and a: "a = build_analytics env ps tally counts cols"
    by blast
  have k1: "n \<in> set (Object_keys fromConcerns)"
    using concerns_loop_string [OF c1 assms(2,3)] assms(4,5,6) by simp
  then have "Object_keys fromConcerns \<noteq> []" by auto
  then have "counts = fromConcerns" by (rule comorbidity_fallback_unused [OF c2])
  with k1 have k: "n \<in> set (Object_keys counts)" by simp
  have pw: "patients_with n ps \<noteq> []"
    using assms(2,3) by (auto simp: patients_with_def filter_empty_conv)
  show 1: "map_of (high_risk_comorbidities (mortality_analytics a)) n =
           (if subset_mortality_rate n ps > 20 then Some (JNum (subset_mortality_rate n ps)) else None)"
    unfolding a build_analytics_fields foldl_high_risk_step_lookup
    using k pw assms(6) by simp
  show "n \<in> set (Object_keys (high_risk_comorbidities (mortality_analytics a)))
           \<longleftrightarrow> subset_mortality_rate n ps > 20"
    unfolding Object_keys_map_of 1 by simp
qed

text \<open>
  The specification's scenarios: a comorbidity that five patients have, two of them deceased,
  is listed; one that ten patients have, one of them deceased, is not.
\<close>

lemma high_risk_scenarios:
  assumes "generateEnhancedPatientAnalytics env ps stats matches existing = Inr a"
    and "p \<in> set ps" and "JStr n \<in> set (primary_concerns p)"
    and "js_trim n = n" and "n \<noteq> []" and "n \<noteq> ''__proto__''"
    and "d = length (filter (\<lambda>p. mortality_status p = JStr ''deceased'') (patients_with n ps))"
  shows "length (patients_with n ps) = 5 \<Longrightarrow> d = 2 \<Longrightarrow>
           subset_mortality_rate n ps = 40
           \<and> n \<in> set (Object_keys (high_risk_comorbidities (mortality_analytics a)))"
    and "length (patients_with n ps) = 10 \<Longrightarrow> d = 1 \<Longrightarrow>
           subset_mortality_rate n ps = 10
           \<and> n \<notin> set (Object_keys (high_risk_comorbidities (mortality_analytics a)))"
proof -
  note hr = high_risk_plain_names(2) [OF assms(1-6)]
  show "subset_mortality_rate n ps = 40
           \<and> n \<in> set (Object_keys (high_risk_comorbidities (mortality_analytics a)))"
    if "length (patients_with n ps) = 5" "d = 2"
  proof -
    have "subset_mortality_rate n ps = 40"
      using that assms(7) by (simp add: subset_mortality_rate_def js_percent_2_5)
    then show ?thesis using hr by simp
  qed
  show "subset_mortality_rate n ps = 10
           \<and> n \<notin> set (Object_keys (high_risk_comorbidities (mortality_analytics a)))"
    if "length (patients_with n ps) = 10" "d = 1"
  proof -
    have "subset_mortality_rate n ps = 10"
      using that assms(7) by (simp add: subset_mortality_rate_def js_percent_1_10)
    then show ?thesis using hr by simp
  qed
qed

lemma tagged_case:
  "(case transformJobResultsForFrontend sample_env tagged_concern_input ''enhanced'' of
      Inl d \<Rightarrow> False
    | Inr t \<Rightarrow> (case td_patient_analytics t of
                  None \<Rightarrow> False
                | Some a \<Rightarrow> total_patients a = 1
                    \<and> deceased_patients (mortality_analytics a) = 1
                    \<and> Object_keys (most_common_comorbidities a) = [''Diabetes'']
                    \<and> high_risk_comorbidities (mortality_analytics a) = []))"
  by code_simp

lemma untrimmed_case:
  "(case transformJobResultsForFrontend sample_env untrimmed_concern_input ''enhanced'' of
      Inl d \<Rightarrow> False
    | Inr t \<Rightarrow> (case td_patient_analytics t of
                  None \<Rightarrow> False
                | Some a \<Rightarrow> total_patients a = 1
                    \<and> deceased_patients (mortality_analytics a) = 1
                    \<and> Object_keys (most_common_comorbidities a) = [''Diabetes'']
                    \<and> high_risk_comorbidities (mortality_analytics a) = []))"
  by code_simp

text \<open>
  Claim C8 states that every comorbidity name among the concerns is listed as high risk
  exactly when more than 20 percent of the patients having it are deceased. The code counts
  the name of a tagged concern and the trimmed name of a string, and then looks for that
  name among the raw elements of \<^verbatim>\<open>primary_concerns\<close>: for one deceased patient whose only
  concern is the object tagged \<open>Diabetes\<close>, or the string \<open>Diabetes\<close> with a leading space,
  it counts \<open>Diabetes\<close> once and lists no high-risk comorbidity, although every patient
  having it is deceased.
\<close>

theorem counted_comorbidity_never_high_risk:
  "(\<exists>t a. transformJobResultsForFrontend sample_env tagged_concern_input ''enhanced'' = Inr t
       \<and> td_patient_analytics t = Some a
       \<and> total_patients a = 1 \<and> deceased_patients (mortality_analytics a) = 1
       \<and> Object_keys (most_common_comorbidities a) = [''Diabetes'']
       \<and> high_risk_comorbidities (mortality_analytics a) = [])
   \<and> (\<exists>t a. transformJobResultsForFrontend sample_env untrimmed_concern_input ''enhanced'' = Inr t
       \<and> td_patient_analytics t = Some a
       \<and> total_patients a = 1 \<and> deceased_patients (mortality_analytics a) = 1
       \<and> Object_keys (most_common_comorbidities a) = [''Diabetes'']
       \<and> high_risk_comorbidities (mortality_analytics a) = [])"
proof
  show "\<exists>t a. transformJobResultsForFrontend sample_env tagged_concern_input ''enhanced'' = Inr t
       \<and> td_patient_analytics t = Some a
       \<and> total_patients a = 1 \<and> deceased_patients (mortality_analytics a) = 1
       \<and> Object_keys (most_common_comorbidities a) = [''Diabetes'']
       \<and> high_risk_comorbidities (mortality_analytics a) = []"
    using tagged_case by (auto split: sum.splits option.splits)
  show "\<exists>t a. transformJobResultsForFrontend sample_env untrimmed_concern_input ''enhanced'' = Inr t
       \<and> td_patient_analytics t = Some a
       \<and> total_patients a = 1 \<and> deceased_patients (mortality_analytics a) = 1
       \<and> Object_keys (most_common_comorbidities a) = [''Diabetes'']
       \<and> high_risk_comorbidities (mortality_analytics a) = []"
    using untrimmed_case by (auto split: sum.splits option.splits)
qed


end
